theory Spec2Isabelle
  imports Main
begin

section \<open>JavaScript strings and numbers\<close>

text \<open>
  The program is TypeScript. A string is modelled as a \<^typ>\<open>string\<close>, one \<^typ>\<open>char\<close> per
  UTF-16 code unit below 256; lengths, slices and paddings count code units, as the
  source's \<^verbatim>\<open>length\<close>, \<^verbatim>\<open>slice\<close> and \<^verbatim>\<open>repeat\<close> do.

  A number is an IEEE double. Every number the formatter and the exporter compute comes
  out of \<^verbatim>\<open>parseInt\<close> or a literal, so it is \<^verbatim>\<open>NaN\<close>, an infinity, or an
  integer-valued double with a sign (\<^verbatim>\<open>-0\<close> included). \<open>Fin neg m\<close> is the double of
  magnitude \<open>m\<close>, negative when \<open>neg\<close> holds.
\<close>

datatype jsnum = NaN | Fin bool nat | Inf bool

text \<open>The one exception the modelled code can raise.\<close>

datatype error = TypeError

fun startsWith :: "string \<Rightarrow> string \<Rightarrow> bool" where
  "startsWith s [] = True"
| "startsWith [] (p # ps) = False"
| "startsWith (c # cs) (p # ps) = (c = p \<and> startsWith cs ps)"

text \<open>\<open>includesStr s sub\<close> is \<^verbatim>\<open>s.includes(sub)\<close>.\<close>

fun includesStr :: "string \<Rightarrow> string \<Rightarrow> bool" where
  "includesStr [] sub = (sub = [])"
| "includesStr (c # cs) sub = (startsWith (c # cs) sub \<or> includesStr cs sub)"

text \<open>
  White space and line terminators of ECMAScript (\<^verbatim>\<open>StrWhiteSpaceChar\<close>) among the code
  units below 256: TAB, LF, VT, FF, CR, SP and NBSP.
\<close>

definition isWhiteSpace :: "char \<Rightarrow> bool" where
  "isWhiteSpace c =
     (c = CHR 0x09 \<or> c = CHR 0x0A \<or> c = CHR 0x0B \<or> c = CHR 0x0C \<or> c = CHR 0x0D \<or>
      c = CHR 0x20 \<or> c = CHR 0xA0)"

definition trimEnd :: "string \<Rightarrow> string" where
  "trimEnd s = rev (dropWhile isWhiteSpace (rev s))"

fun join :: "string \<Rightarrow> string list \<Rightarrow> string" where
  "join sep [] = []"
| "join sep [x] = x"
| "join sep (x # y # ys) = x @ sep @ join sep (y # ys)"

subsection \<open>Rounding an integer to a double\<close>

text \<open>
  \<open>roundDouble n\<close> is the double nearest to the integer \<open>n\<close>, ties to even, and \<open>None\<close>
  when the rounded value leaves the finite range (the number is then an infinity).
\<close>

fun bitlen :: "nat \<Rightarrow> nat" where
  "bitlen n = (if n = 0 then 0 else Suc (bitlen (n div 2)))"

declare bitlen.simps [simp del]

definition roundDouble :: "nat \<Rightarrow> nat option" where
  "roundDouble n =
     (if n < 2 ^ 53 then Some n
      else
        let e = bitlen n - 53;
            q = n div 2 ^ e;
            r = n mod 2 ^ e;
            h = 2 ^ (e - 1);
            q' = (if h < r \<or> (r = h \<and> odd q) then q + 1 else q);
            d = q' * 2 ^ e
        in if 2 ^ 1024 \<le> d then None else Some d)"

text \<open>
  A magnitude that may be infinite is a \<^typ>\<open>nat option\<close>, \<open>None\<close> for the infinity.
  \<open>addDouble\<close> and \<open>mulDouble\<close> are \<^verbatim>\<open>+\<close> and \<^verbatim>\<open>*\<close> on non-negative doubles with an
  integer value: the exact result, rounded.
\<close>

definition withSign :: "bool \<Rightarrow> nat option \<Rightarrow> jsnum" where
  "withSign neg v = (case v of None \<Rightarrow> Inf neg | Some d \<Rightarrow> Fin neg d)"

definition toNumber :: "bool \<Rightarrow> nat \<Rightarrow> jsnum" where
  "toNumber neg n = withSign neg (roundDouble n)"

definition addDouble :: "nat option \<Rightarrow> nat \<Rightarrow> nat option" where
  "addDouble a b = (case a of None \<Rightarrow> None | Some x \<Rightarrow> roundDouble (x + b))"

definition mulDouble :: "nat option \<Rightarrow> nat \<Rightarrow> nat option" where
  "mulDouble a b = (case a of None \<Rightarrow> None | Some x \<Rightarrow> roundDouble (x * b))"

subsection \<open>parseInt\<close>

text \<open>
  \<^verbatim>\<open>parseInt(input, R)\<close> for an explicit radix \<open>R\<close> from 2 to 36, as JavaScriptCore
  computes it (the program runs on Bun: \<^verbatim>\<open>#!/usr/bin/env bun\<close>, \<^verbatim>\<open>Bun.$\<close>). Leading
  white space is dropped, one sign is read, for radix 16 a \<^verbatim>\<open>0x\<close> or \<^verbatim>\<open>0X\<close> is
  dropped, the longest run of radix-\<open>R\<close> digits is the numeral, and no digit at all is
  \<^verbatim>\<open>NaN\<close>. The value of the numeral is accumulated in a double from the left,
  \<^verbatim>\<open>number *= radix; number += digit\<close>, which is exact below \<open>2 ^ 53\<close>. When the
  accumulated number has reached \<open>2 ^ 53\<close>, the engine reads the numeral again: a
  decimal numeral is converted as \<^verbatim>\<open>strtod\<close> converts it, to the double nearest to
  its exact value; a numeral of radix 2, 4, 8, 16 or 32 is summed from its last digit
  to its first, \<^verbatim>\<open>number += digit * radixMultiplier\<close>, every addition rounded (so
  the result need not be the double nearest to the exact value); for any other radix
  the accumulated number stands.
\<close>

definition digitVal :: "char \<Rightarrow> nat option" where
  "digitVal c =
     (let n = (of_char c :: nat) in
      if 48 \<le> n \<and> n \<le> 57 then Some (n - 48)
      else if 97 \<le> n \<and> n \<le> 122 then Some (n - 87)
      else if 65 \<le> n \<and> n \<le> 90 then Some (n - 55)
      else None)"

definition isRadixDigit :: "nat \<Rightarrow> char \<Rightarrow> bool" where
  "isRadixDigit R c = (case digitVal c of None \<Rightarrow> False | Some d \<Rightarrow> d < R)"

definition digitOf :: "char \<Rightarrow> nat" where
  "digitOf c = (case digitVal c of None \<Rightarrow> 0 | Some d \<Rightarrow> d)"

text \<open>The exact value of a numeral.\<close>

definition numeralValue :: "nat \<Rightarrow> string \<Rightarrow> nat" where
  "numeralValue R Z = foldl (\<lambda>a c. a * R + digitOf c) 0 Z"

text \<open>The number accumulated from the left.\<close>

definition accumulate :: "nat \<Rightarrow> string \<Rightarrow> nat option" where
  "accumulate R Z = foldl (\<lambda>a c. addDouble (mulDouble a R) (digitOf c)) (Some 0) Z"

text \<open>
  \<^verbatim>\<open>parseIntOverflow\<close>: the sum from the last digit on; the argument is the numeral
  reversed, \<open>mult\<close> is \<^verbatim>\<open>radixMultiplier\<close>, a power of two that has become the infinity
  when it has left the finite range; from there on any digit other than \<^verbatim>\<open>0\<close> makes
  the number infinite.
\<close>

fun parseIntOverflow :: "nat \<Rightarrow> string \<Rightarrow> nat \<Rightarrow> nat option \<Rightarrow> nat option" where
  "parseIntOverflow R [] mult number = number"
| "parseIntOverflow R (c # cs) mult number =
     (if 2 ^ 1024 \<le> mult
      then (if c \<noteq> CHR ''0'' then None else parseIntOverflow R cs (mult * R) number)
      else parseIntOverflow R cs (mult * R) (addDouble number (digitOf c * mult)))"

definition radixValue :: "nat \<Rightarrow> string \<Rightarrow> nat option" where
  "radixValue R Z =
     (let number = accumulate R Z in
      if (case number of None \<Rightarrow> True | Some x \<Rightarrow> 2 ^ 53 \<le> x) then
        (if R = 10 then roundDouble (numeralValue 10 Z)
         else if R = 2 \<or> R = 4 \<or> R = 8 \<or> R = 16 \<or> R = 32
         then parseIntOverflow R (rev Z) 1 (Some 0)
         else number)
      else number)"

definition stripSign :: "string \<Rightarrow> string" where
  "stripSign S = (if startsWith S ''-'' \<or> startsWith S ''+'' then tl S else S)"

definition stripRadixPrefix :: "nat \<Rightarrow> string \<Rightarrow> string" where
  "stripRadixPrefix R S =
     (if R = 16 \<and> (startsWith S ''0x'' \<or> startsWith S ''0X'') then drop 2 S else S)"

definition numeralRun :: "string \<Rightarrow> nat \<Rightarrow> string" where
  "numeralRun input R =
     takeWhile (isRadixDigit R) (stripRadixPrefix R (stripSign (dropWhile isWhiteSpace input)))"

definition parseInt :: "string \<Rightarrow> nat \<Rightarrow> jsnum" where
  "parseInt input R =
     (let neg = startsWith (dropWhile isWhiteSpace input) ''-'';
          Z = numeralRun input R
      in if Z = [] then NaN else withSign neg (radixValue R Z))"

subsection \<open>Number to string\<close>

text \<open>
  \<^verbatim>\<open>String(x)\<close> and \<^verbatim>\<open>`${x}`\<close> of a number (ECMAScript \<^verbatim>\<open>Number::toString\<close>, radix
  10): the fewest significant digits \<open>s\<close> that still round to \<open>x\<close>, the nearest such
  value when several have as few digits, with \<open>n - k\<close> zeros after them up to 21
  integer digits, and the exponent form above. An integer below \<open>2 ^ 53\<close> is printed
  digit by digit.
\<close>

definition digitChar :: "nat \<Rightarrow> char" where
  "digitChar d = ''0123456789'' ! d"

fun decimal :: "nat \<Rightarrow> string" where
  "decimal n = (if n < 10 then [digitChar n] else decimal (n div 10) @ [digitChar (n mod 10)])"

declare decimal.simps [simp del]

text \<open>A candidate is \<open>(s, n)\<close>: the \<open>k\<close> digits \<open>s\<close> standing for \<open>s * 10 ^ (n - k)\<close>.\<close>

definition candidates :: "nat \<Rightarrow> nat \<Rightarrow> nat \<Rightarrow> (nat \<times> nat) list" where
  "candidates m k n =
     (if n < k then []
      else
        let p = 10 ^ (n - k); s0 = m div p in
        filter (\<lambda>(s, n'). 10 ^ (k - 1) \<le> s \<and> s < 10 ^ k \<and> roundDouble (s * p) = Some m)
          [(s0, n), (s0 + 1, n)])"

definition distance :: "nat \<Rightarrow> nat \<Rightarrow> nat \<times> nat \<Rightarrow> nat" where
  "distance m k c = (let v = fst c * 10 ^ (snd c - k) in if v < m then m - v else v - m)"

fun closest :: "nat \<Rightarrow> nat \<Rightarrow> (nat \<times> nat) list \<Rightarrow> (nat \<times> nat) option" where
  "closest m k [] = None"
| "closest m k (c # cs) =
     (case closest m k cs of
        None \<Rightarrow> Some c
      | Some b \<Rightarrow>
          if distance m k c < distance m k b \<or> (distance m k c = distance m k b \<and> even (fst c))
          then Some c else Some b)"

fun shortestFrom :: "nat \<Rightarrow> nat \<Rightarrow> nat \<Rightarrow> nat \<Rightarrow> nat \<times> nat" where
  "shortestFrom m N 0 k = (m, N)"
| "shortestFrom m N (Suc fuel) k =
     (case closest m k (candidates m k N @ candidates m k (N + 1)) of
        Some c \<Rightarrow> c
      | None \<Rightarrow> shortestFrom m N fuel (Suc k))"

definition shortest :: "nat \<Rightarrow> nat \<times> nat" where
  "shortest m = (let N = length (decimal m) in shortestFrom m N N 1)"

definition magnitudeString :: "nat \<Rightarrow> string" where
  "magnitudeString m =
     (if m < 2 ^ 53 then decimal m
      else
        let ds = decimal (fst (shortest m)); n = snd (shortest m) in
        if n \<le> 21 then ds @ replicate (n - length ds) (CHR ''0'')
        else (if length ds = 1 then ds else hd ds # CHR ''.'' # tl ds) @ ''e+'' @ decimal (n - 1))"

fun numberToString :: "jsnum \<Rightarrow> string" where
  "numberToString NaN = ''NaN''"
| "numberToString (Inf neg) = (if neg then ''-Infinity'' else ''Infinity'')"
| "numberToString (Fin neg m) =
     (if m = 0 then ''0'' else (if neg then ''-'' else '''') @ magnitudeString m)"

subsection \<open>Comparisons\<close>

text \<open>
  \<^verbatim>\<open><\<close>, \<^verbatim>\<open>>\<close>, \<^verbatim>\<open><=\<close>, \<^verbatim>\<open>>=\<close> and \<^verbatim>\<open>===\<close> on numbers: every comparison with
  \<^verbatim>\<open>NaN\<close> is false, and \<^verbatim>\<open>-0\<close> equals \<^verbatim>\<open>0\<close>.
\<close>

fun finValue :: "bool \<Rightarrow> nat \<Rightarrow> int" where
  "finValue neg m = (if neg then - int m else int m)"

fun numLess :: "jsnum \<Rightarrow> jsnum \<Rightarrow> bool" where
  "numLess NaN b = False"
| "numLess a NaN = False"
| "numLess (Inf s) (Inf t) = (s \<and> \<not> t)"
| "numLess (Inf s) (Fin t m) = s"
| "numLess (Fin s m) (Inf t) = (\<not> t)"
| "numLess (Fin s m) (Fin t n) = (finValue s m < finValue t n)"

fun numEq :: "jsnum \<Rightarrow> jsnum \<Rightarrow> bool" where
  "numEq (Fin s m) (Fin t n) = (finValue s m = finValue t n)"
| "numEq (Inf s) (Inf t) = (s = t)"
| "numEq a b = False"

definition numGreater :: "jsnum \<Rightarrow> jsnum \<Rightarrow> bool" where
  "numGreater a b = numLess b a"

definition numLessEq :: "jsnum \<Rightarrow> jsnum \<Rightarrow> bool" where
  "numLessEq a b = (numLess a b \<or> numEq a b)"

definition numGreaterEq :: "jsnum \<Rightarrow> jsnum \<Rightarrow> bool" where
  "numGreaterEq a b = (numLess b a \<or> numEq a b)"

abbreviation lit :: "nat \<Rightarrow> jsnum" where
  "lit n \<equiv> Fin False n"

section \<open>The formatter: helpers\<close>

text \<open>\<^verbatim>\<open>parseHex\<close>: hexadecimal for a string that starts with \<^verbatim>\<open>0x\<close>, decimal otherwise.\<close>

definition parseHex :: "string \<Rightarrow> jsnum" where
  "parseHex s = (if startsWith s ''0x'' then parseInt s 16 else parseInt s 10)"

text \<open>
  An argument read from the list is \<open>None\<close> where the source reads \<^verbatim>\<open>undefined\<close>
  (an index past the end). \<^verbatim>\<open>!s\<close> holds for \<^verbatim>\<open>undefined\<close> and for the empty string.
  \<open>intArg\<close> is the helper \<^verbatim>\<open>int\<close> of the source.
\<close>

fun falsy :: "string option \<Rightarrow> bool" where
  "falsy None = True"
| "falsy (Some s) = (s = [])"

definition fd :: "string option \<Rightarrow> string" where
  "fd s =
     (if falsy s then ''?''
      else
        let val = parseHex (the s) in
        if numLess val (lit 0) \<or> numGreater val (lit 0xFFFF) then the s
        else ''<fd:'' @ numberToString val @ ''>'')"

definition intArg :: "string option \<Rightarrow> string" where
  "intArg s =
     (if falsy s then ''?''
      else
        let val = parseHex (the s) in
        if numGreaterEq val (lit 0) \<and> numLessEq val (lit 0xFFFF) then numberToString val
        else the s)"

section \<open>The formatter: argument decoders\<close>

text \<open>
  \<^verbatim>\<open>formatOpenFlags\<close>, \<^verbatim>\<open>formatProtFlags\<close>, \<^verbatim>\<open>formatMapFlags\<close> and
  \<^verbatim>\<open>formatFcntlCmd\<close> are imported from \<^verbatim>\<open>./syscalls\<close> with its constant tables;
  they are parameters of the model, four functions from a number to a string, so that
  every result holds whatever the tables are.
\<close>

record flagFormatters =
  formatOpenFlags :: "jsnum \<Rightarrow> string"
  formatProtFlags :: "jsnum \<Rightarrow> string"
  formatMapFlags :: "jsnum \<Rightarrow> string"
  formatFcntlCmd :: "jsnum \<Rightarrow> string"

text \<open>
  Every decoder of the table returns one template literal: an opening parenthesis, the
  renderings of some positions of the argument array separated by a comma and a space,
  and a closing parenthesis. A decoder is modelled as the list of its renderings, in
  the order of the template; each is one of the ten forms the table uses:
  \<^item> \<open>RawArg i\<close>: \<^verbatim>\<open>${args[i]}\<close>, which prints \<^verbatim>\<open>undefined\<close> for a missing argument;
  \<^item> \<open>FdArg i\<close>: \<^verbatim>\<open>${fd(args[i])}\<close>; \<open>IntArg i\<close>: \<^verbatim>\<open>${int(args[i])}\<close>;
  \<^item> \<open>OrZeroArg i\<close>: \<^verbatim>\<open>${args[i] || "0"}\<close>;
  \<^item> \<open>DirFdArg i\<close>: \<^verbatim>\<open>args[i] === "0xfffffffffffffffe" ? "AT_FDCWD" : fd(args[i])\<close>;
  \<^item> \<open>DirRawArg i\<close>: \<^verbatim>\<open>args[i] === "0xfffffffffffffffe" ? "AT_FDCWD" : args[i]\<close>;
  \<^item> \<open>OpenFlagsArg i\<close>: \<^verbatim>\<open>${formatOpenFlags(parseHex(args[i] || "0"))}\<close>, and the same
    for \<open>ProtFlagsArg\<close>, \<open>MapFlagsArg\<close> and \<open>FcntlCmdArg\<close>.
\<close>

datatype piece =
    RawArg nat | FdArg nat | IntArg nat | OrZeroArg nat | DirFdArg nat | DirRawArg nat
  | OpenFlagsArg nat | ProtFlagsArg nat | MapFlagsArg nat | FcntlCmdArg nat

definition nthOpt :: "'a list \<Rightarrow> nat \<Rightarrow> 'a option" where
  "nthOpt xs i = (if i < length xs then Some (xs ! i) else None)"

definition template :: "string option \<Rightarrow> string" where
  "template s = (case s of None \<Rightarrow> ''undefined'' | Some x \<Rightarrow> x)"

definition orZero :: "string option \<Rightarrow> string" where
  "orZero s = (if falsy s then ''0'' else the s)"

fun renderPiece :: "flagFormatters \<Rightarrow> string list \<Rightarrow> piece \<Rightarrow> string" where
  "renderPiece fm argv (RawArg i) = template (nthOpt argv i)"
| "renderPiece fm argv (FdArg i) = fd (nthOpt argv i)"
| "renderPiece fm argv (IntArg i) = intArg (nthOpt argv i)"
| "renderPiece fm argv (OrZeroArg i) = orZero (nthOpt argv i)"
| "renderPiece fm argv (DirFdArg i) =
     (if nthOpt argv i = Some ''0xfffffffffffffffe'' then ''AT_FDCWD'' else fd (nthOpt argv i))"
| "renderPiece fm argv (DirRawArg i) =
     (if nthOpt argv i = Some ''0xfffffffffffffffe'' then ''AT_FDCWD''
      else template (nthOpt argv i))"
| "renderPiece fm argv (OpenFlagsArg i) = formatOpenFlags fm (parseHex (orZero (nthOpt argv i)))"
| "renderPiece fm argv (ProtFlagsArg i) = formatProtFlags fm (parseHex (orZero (nthOpt argv i)))"
| "renderPiece fm argv (MapFlagsArg i) = formatMapFlags fm (parseHex (orZero (nthOpt argv i)))"
| "renderPiece fm argv (FcntlCmdArg i) = formatFcntlCmd fm (parseHex (orZero (nthOpt argv i)))"

definition runDecoder :: "flagFormatters \<Rightarrow> piece list \<Rightarrow> string list \<Rightarrow> string" where
  "runDecoder fm ps argv = ''('' @ join '', '' (map (renderPiece fm argv) ps) @ '')''"

definition decoders :: "(string \<times> piece list) list" where
  "decoders =
   [(''open'', [RawArg 0, OpenFlagsArg 1, IntArg 2]),
    (''openat'', [DirFdArg 0, RawArg 1, OpenFlagsArg 2, IntArg 3]),
    (''open_nocancel'', [RawArg 0, OpenFlagsArg 1, IntArg 2]),
    (''openat_nocancel'', [DirFdArg 0, RawArg 1, OpenFlagsArg 2, IntArg 3]),
    (''sys_close'', [FdArg 0]),
    (''close'', [FdArg 0]),
    (''close_nocancel'', [FdArg 0]),
    (''sys_close_nocancel'', [FdArg 0]),
    (''read'', [FdArg 0, RawArg 1, IntArg 2]),
    (''write'', [FdArg 0, RawArg 1, IntArg 2]),
    (''read_nocancel'', [FdArg 0, RawArg 1, IntArg 2]),
    (''write_nocancel'', [FdArg 0, RawArg 1, IntArg 2]),
    (''pread'', [FdArg 0, RawArg 1, IntArg 2, IntArg 3]),
    (''pwrite'', [FdArg 0, RawArg 1, IntArg 2, IntArg 3]),
    (''mmap'', [RawArg 0, RawArg 1, ProtFlagsArg 2, MapFlagsArg 3, FdArg 4, RawArg 5]),
    (''mprotect'', [RawArg 0, RawArg 1, ProtFlagsArg 2]),
    (''munmap'', [RawArg 0, RawArg 1]),
    (''madvise'', [RawArg 0, RawArg 1, IntArg 2]),
    (''sys_fcntl'', [FdArg 0, FcntlCmdArg 1, OrZeroArg 2]),
    (''fcntl'', [FdArg 0, FcntlCmdArg 1, OrZeroArg 2]),
    (''fcntl_nocancel'', [FdArg 0, FcntlCmdArg 1, OrZeroArg 2]),
    (''sys_dup'', [FdArg 0]),
    (''dup'', [FdArg 0]),
    (''dup2'', [FdArg 0, FdArg 1]),
    (''stat64'', [RawArg 0, RawArg 1]),
    (''fstat64'', [FdArg 0, RawArg 1]),
    (''lstat64'', [RawArg 0, RawArg 1]),
    (''fstatat64'', [DirFdArg 0, RawArg 1, RawArg 2, IntArg 3]),
    (''stat'', [RawArg 0, RawArg 1]),
    (''fstat'', [FdArg 0, RawArg 1]),
    (''lstat'', [RawArg 0, RawArg 1]),
    (''getdirentries64'', [FdArg 0, RawArg 1, IntArg 2, RawArg 3]),
    (''ioctl'', [FdArg 0, RawArg 1, OrZeroArg 2]),
    (''socket'', [IntArg 0, IntArg 1, IntArg 2]),
    (''connect'', [FdArg 0, RawArg 1, IntArg 2]),
    (''bind'', [FdArg 0, RawArg 1, IntArg 2]),
    (''listen'', [FdArg 0, IntArg 1]),
    (''accept'', [FdArg 0, RawArg 1, RawArg 2]),
    (''sendto'', [FdArg 0, RawArg 1, IntArg 2, IntArg 3, RawArg 4, IntArg 5]),
    (''recvfrom'', [FdArg 0, RawArg 1, IntArg 2, IntArg 3, RawArg 4, RawArg 5]),
    (''execve'', [RawArg 0, RawArg 1, RawArg 2]),
    (''fork'', []),
    (''vfork'', []),
    (''exit'', [OrZeroArg 0]),
    (''wait4'', [RawArg 0, RawArg 1, RawArg 2, RawArg 3]),
    (''getpid'', []),
    (''getppid'', []),
    (''getuid'', []),
    (''geteuid'', []),
    (''getgid'', []),
    (''getegid'', []),
    (''bsdthread_create'', [RawArg 0, RawArg 1, RawArg 2, RawArg 3]),
    (''bsdthread_terminate'', [RawArg 0, RawArg 1, RawArg 2, RawArg 3]),
    (''thread_selfid'', []),
    (''sigaction'', [RawArg 0, RawArg 1, RawArg 2]),
    (''sigprocmask'', [RawArg 0, RawArg 1, RawArg 2]),
    (''__pthread_kill'', [RawArg 0, RawArg 1]),
    (''kqueue'', []),
    (''kevent'', [RawArg 0, RawArg 1, RawArg 2, RawArg 3, RawArg 4, RawArg 5]),
    (''kevent64'', [RawArg 0, RawArg 1, RawArg 2, RawArg 3, RawArg 4, RawArg 5]),
    (''kevent_qos'', [RawArg 0, RawArg 1, RawArg 2, RawArg 3, RawArg 4, RawArg 5]),
    (''sysctl'', [RawArg 0, RawArg 1, RawArg 2, RawArg 3, RawArg 4, RawArg 5]),
    (''sysctlbyname'', [RawArg 0, RawArg 1, RawArg 2, RawArg 3, RawArg 4]),
    (''access'', [RawArg 0, RawArg 1]),
    (''faccessat'', [DirRawArg 0, RawArg 1, RawArg 2, OrZeroArg 3]),
    (''getattrlist'', [RawArg 0, RawArg 1, RawArg 2, RawArg 3]),
    (''fgetattrlist'', [RawArg 0, RawArg 1, RawArg 2, RawArg 3]),
    (''setattrlist'', [RawArg 0, RawArg 1, RawArg 2, RawArg 3]),
    (''getxattr'', [RawArg 0, RawArg 1, RawArg 2, RawArg 3, RawArg 4, RawArg 5]),
    (''fgetxattr'', [RawArg 0, RawArg 1, RawArg 2, RawArg 3, RawArg 4, RawArg 5]),
    (''listxattr'', [RawArg 0, RawArg 1, RawArg 2, RawArg 3]),
    (''csops'', [RawArg 0, RawArg 1, RawArg 2, RawArg 3]),
    (''csops_audittoken'', [RawArg 0, RawArg 1, RawArg 2, RawArg 3, RawArg 4]),
    (''proc_info'', [RawArg 0, RawArg 1, RawArg 2, RawArg 3, RawArg 4, RawArg 5]),
    (''shared_region_check_np'', [RawArg 0]),
    (''getfsstat64'', [RawArg 0, RawArg 1, RawArg 2]),
    (''statfs64'', [RawArg 0, RawArg 1]),
    (''fstatfs64'', [RawArg 0, RawArg 1]),
    (''getentropy'', [RawArg 0, RawArg 1]),
    (''guarded_open_np'', [RawArg 0, RawArg 1, RawArg 2, OpenFlagsArg 3]),
    (''mach_msg_trap'', [RawArg 0, RawArg 1, RawArg 2, RawArg 3]),
    (''mach_msg'', [RawArg 0, RawArg 1, RawArg 2, RawArg 3]),
    (''mach_vm_map_trap'', [RawArg 0, RawArg 1, RawArg 2, RawArg 3]),
    (''mach_vm_allocate_trap'', [RawArg 0, RawArg 1, RawArg 2, RawArg 3]),
    (''mach_vm_deallocate_trap'', [RawArg 0, RawArg 1, RawArg 2]),
    (''mach_port_deallocate_trap'', [RawArg 0, RawArg 1]),
    (''task_self_trap'', []),
    (''host_self_trap'', []),
    (''thread_self_trap'', []),
    (''mach_reply_port'', []),
    (''semaphore_wait_trap'', [RawArg 0]),
    (''semaphore_signal_trap'', [RawArg 0]),
    (''semaphore_timedwait_trap'', [RawArg 0, RawArg 1, RawArg 2]),
    (''mk_timer_create'', []),
    (''mk_timer_arm'', [RawArg 0, RawArg 1]),
    (''mk_timer_cancel'', [RawArg 0, RawArg 1]),
    (''mk_timer_destroy'', [RawArg 0]),
    (''psynch_mutexwait'', [RawArg 0, RawArg 1, RawArg 2, RawArg 3]),
    (''psynch_mutexdrop'', [RawArg 0, RawArg 1, RawArg 2, RawArg 3]),
    (''psynch_cvwait'', [RawArg 0, RawArg 1, RawArg 2, RawArg 3]),
    (''psynch_cvsignal'', [RawArg 0, RawArg 1, RawArg 2, RawArg 3]),
    (''psynch_cvbroad'', [RawArg 0, RawArg 1, RawArg 2, RawArg 3]),
    (''ulock_wait'', [RawArg 0, RawArg 1, RawArg 2, RawArg 3]),
    (''ulock_wait2'', [RawArg 0, RawArg 1, RawArg 2, RawArg 3, RawArg 4]),
    (''ulock_wake'', [RawArg 0, RawArg 1, RawArg 2]),
    (''workq_kernreturn'', [RawArg 0, RawArg 1, RawArg 2, RawArg 3]),
    (''workq_open'', []),
    (''bsdthread_ctl'', [RawArg 0, RawArg 1, RawArg 2, RawArg 3])]"

definition defaultDecoder :: "string list \<Rightarrow> string" where
  "defaultDecoder argv = (if length argv = 0 then ''()'' else ''('' @ join '', '' argv @ '')'')"

text \<open>
  \<^verbatim>\<open>decoders[event.syscall] || defaultDecoder\<close> reads a property of a plain object, so
  a name that is no key of the table but a property of \<^verbatim>\<open>Object.prototype\<close> finds the
  inherited member, which is truthy, and the default decoder is not taken. Called as
  \<^verbatim>\<open>decoder(args, event.result)\<close>, with no receiver:
  \<^item> \<^verbatim>\<open>constructor\<close> is \<^verbatim>\<open>Object\<close>, which returns its first argument, the array;
  \<^item> \<^verbatim>\<open>toString\<close> returns \<^verbatim>\<open>[object Undefined]\<close>;
  \<^item> \<^verbatim>\<open>__proto__\<close> is the prototype object, not a function, and the call raises;
  \<^item> the other members convert the missing receiver to an object, and raise.
\<close>

datatype decoded = Text string | ArgArray "string list"

definition objectPrototypeKeys :: "string list" where
  "objectPrototypeKeys =
   [''constructor'', ''toString'', ''toLocaleString'', ''valueOf'', ''hasOwnProperty'',
    ''isPrototypeOf'', ''propertyIsEnumerable'', ''__defineGetter__'', ''__defineSetter__'',
    ''__lookupGetter__'', ''__lookupSetter__'', ''__proto__'']"

definition decode :: "flagFormatters \<Rightarrow> string \<Rightarrow> string list \<Rightarrow> error + decoded" where
  "decode fm name argv =
     (case map_of decoders name of
        Some ps \<Rightarrow> Inr (Text (runDecoder fm ps argv))
      | None \<Rightarrow>
          if name = ''constructor'' then Inr (ArgArray argv)
          else if name = ''toString'' then Inr (Text ''[object Undefined]'')
          else if name \<in> set objectPrototypeKeys then Inl TypeError
          else Inr (Text (defaultDecoder argv)))"

section \<open>The formatter: return values\<close>

definition fdReturnSyscalls :: "string list" where
  "fdReturnSyscalls =
   [''open'', ''openat'', ''open_nocancel'', ''openat_nocancel'',
    ''socket'', ''accept'', ''accept_nocancel'',
    ''dup'', ''dup2'', ''sys_dup'',
    ''kqueue'', ''shm_open'', ''sem_open'',
    ''pipe'', ''socketpair'',
    ''guarded_open_np'', ''guarded_open_dprotected_np'',
    ''open_dprotected_np'', ''openbyid_np'',
    ''fileport_makefd'']"

definition addrReturnSyscalls :: "string list" where
  "addrReturnSyscalls = [''mmap'', ''mremap_encrypted'', ''shmat'']"

definition byteCountReturnSyscalls :: "string list" where
  "byteCountReturnSyscalls =
   [''read'', ''write'', ''pread'', ''pwrite'',
    ''read_nocancel'', ''write_nocancel'',
    ''pread_nocancel'', ''pwrite_nocancel'',
    ''readv'', ''writev'', ''readv_nocancel'', ''writev_nocancel'',
    ''sendto'', ''recvfrom'', ''sendmsg'', ''recvmsg'',
    ''sendto_nocancel'', ''recvfrom_nocancel'',
    ''getdirentries64'', ''getxattr'', ''fgetxattr'', ''listxattr'']"

definition formatResult :: "string \<Rightarrow> string \<Rightarrow> bool \<Rightarrow> string" where
  "formatResult sc res hasError =
     (let val = parseHex res in
      if hasError then
        (if numEq val (lit 0) \<or> numEq val (Fin True 1) \<or> numGreater val (lit 0xFFFFFFFF00000000)
         then ''-1'' else numberToString val)
      else if numLess val (lit 0) \<or> numGreater val (lit 0xFFFFFFFF00000000) then res
      else if sc \<in> set fdReturnSyscalls then ''<fd:'' @ numberToString val @ ''>''
      else if sc \<in> set addrReturnSyscalls then res
      else if sc \<in> set byteCountReturnSyscalls then numberToString val
      else if numEq val (lit 0) then ''0''
      else if numGreater val (lit 0xFFFF) then res
      else numberToString val)"

section \<open>Primitive values\<close>

text \<open>
  A primitive value of the parsed document: a string, a number or a boolean. The XML
  parser is left to convert element text (its option \<^verbatim>\<open>parseTagValue\<close> is not
  switched off), so text that reads as a number or as \<^verbatim>\<open>true\<close> or \<^verbatim>\<open>false\<close> arrives
  as a number or a boolean. The program does to such a number only three things: it
  tests it for truth, asks for its type, and converts it to a string (inside
  \<^verbatim>\<open>parseInt\<close>); so a number is modelled by the text \<^verbatim>\<open>String\<close> prints for it,
  \<open>PNum ''123''\<close> for 123, from which the three can be read (a number is false exactly
  when it prints as \<^verbatim>\<open>0\<close> or \<^verbatim>\<open>NaN\<close>).
\<close>

datatype prim = PStr string | PNum string | PBool bool

fun truthyPrim :: "prim \<Rightarrow> bool" where
  "truthyPrim (PStr s) = (s \<noteq> [])"
| "truthyPrim (PNum s) = (s \<noteq> ''0'' \<and> s \<noteq> ''NaN'')"
| "truthyPrim (PBool b) = b"

fun falsyPrim :: "prim option \<Rightarrow> bool" where
  "falsyPrim None = True"
| "falsyPrim (Some p) = (\<not> truthyPrim p)"

fun isString :: "prim \<Rightarrow> bool" where
  "isString (PStr s) = True"
| "isString p = False"

fun toStringPrim :: "prim \<Rightarrow> string" where
  "toStringPrim (PStr s) = s"
| "toStringPrim (PNum s) = s"
| "toStringPrim (PBool b) = (if b then ''true'' else ''false'')"

section \<open>The formatter: one line per event\<close>

text \<open>
  The event. Its fields are declared strings and numbers; \<^verbatim>\<open>errno\<close> holds what the
  exporter's \<^verbatim>\<open>getFmt(...) ?? getText(...)\<close> returned, which is a string for every
  formatted value and for text the parser left a string, and a number or a boolean
  otherwise.
\<close>

record TraceEvent =
  timestamp :: string
  duration :: "string option"
  syscall :: string
  signature :: string
  pid :: "jsnum option"
  tid :: "jsnum option"
  process :: "string option"
  result :: "string option"
  errno :: "prim option"
  args :: "string list option"

text \<open>The palette \<^verbatim>\<open>c\<close> of ANSI codes, and the palette of empty codes used without colour.\<close>

record palette =
  reset :: string
  bold :: string
  dim :: string
  red :: string
  green :: string
  yellow :: string
  blue :: string
  magenta :: string
  cyan :: string
  white :: string
  gray :: string

definition ansi :: palette where
  "ansi =
     \<lparr>reset = CHR 0x1B # ''[0m'', bold = CHR 0x1B # ''[1m'', dim = CHR 0x1B # ''[2m'',
      red = CHR 0x1B # ''[31m'', green = CHR 0x1B # ''[32m'', yellow = CHR 0x1B # ''[33m'',
      blue = CHR 0x1B # ''[34m'', magenta = CHR 0x1B # ''[35m'', cyan = CHR 0x1B # ''[36m'',
      white = CHR 0x1B # ''[37m'', gray = CHR 0x1B # ''[90m''\<rparr>"

definition plain :: palette where
  "plain =
     \<lparr>reset = [], bold = [], dim = [], red = [], green = [], yellow = [],
      blue = [], magenta = [], cyan = [], white = [], gray = []\<rparr>"

definition pad :: "string \<Rightarrow> nat \<Rightarrow> bool \<Rightarrow> string" where
  "pad s len left =
     (if len \<le> length s then s
      else
        let spaces = replicate (len - length s) (CHR '' '') in
        if left then spaces @ s else s @ spaces)"

text \<open>
  \<^verbatim>\<open>ts.match(/(\d+)\.(\d+)\.(\d+)$/)\<close>: the string has to end in three runs of digits
  separated by two dots; the leftmost match takes the whole run of digits before the
  first of the two dots, and the timestamp becomes the first two runs.
\<close>

definition isDigit :: "char \<Rightarrow> bool" where
  "isDigit ch = (48 \<le> (of_char ch :: nat) \<and> (of_char ch :: nat) \<le> 57)"

definition compactTimestamp :: "string \<Rightarrow> string" where
  "compactTimestamp ts =
     (let r = rev ts;
          d3 = takeWhile isDigit r;
          r1 = dropWhile isDigit r;
          d2 = takeWhile isDigit (tl r1);
          r2 = dropWhile isDigit (tl r1);
          d1 = takeWhile isDigit (tl r2)
      in if d3 \<noteq> [] \<and> startsWith r1 ''.'' \<and> d2 \<noteq> [] \<and> startsWith r2 ''.'' \<and> d1 \<noteq> []
         then rev d1 @ ''.'' @ rev d2 else ts)"

text \<open>\<^verbatim>\<open>s.replace(pat, rep)\<close> with a string pattern: the first occurrence only.\<close>

fun replaceFirst :: "string \<Rightarrow> string \<Rightarrow> string \<Rightarrow> string" where
  "replaceFirst pat rep [] = (if pat = [] then rep else [])"
| "replaceFirst pat rep (x # xs) =
     (if startsWith (x # xs) pat then rep @ drop (length pat) (x # xs)
      else x # replaceFirst pat rep xs)"

text \<open>The three replacements that dim the punctuation of the decoded arguments.\<close>

definition dimOpen :: "palette \<Rightarrow> string \<Rightarrow> string" where
  "dimOpen col s = (if startsWith s ''('' then dim col @ ''('' @ reset col @ tl s else s)"

definition dimClose :: "palette \<Rightarrow> string \<Rightarrow> string" where
  "dimClose col s =
     (if s \<noteq> [] \<and> last s = CHR '')'' then butlast s @ dim col @ '')'' @ reset col else s)"

fun dimCommas :: "palette \<Rightarrow> string \<Rightarrow> string" where
  "dimCommas col (x # y # xs) =
     (if x = CHR '','' \<and> y = CHR '' '' then dim col @ '', '' @ reset col @ dimCommas col xs
      else x # dimCommas col (y # xs))"
| "dimCommas col xs = xs"

text \<open>
  The constant \<^verbatim>\<open>isRealError\<close> of \<^verbatim>\<open>formatEvent\<close>,
  \<^verbatim>\<open>errno && !errno.includes("success") && ...\<close>: false (a falsy value) for a missing
  or falsy label, the test of the four phrases for a non-empty string, and a
  \<^verbatim>\<open>TypeError\<close> for a true number or boolean, which has no \<^verbatim>\<open>includes\<close>.
\<close>

definition isRealError :: "TraceEvent \<Rightarrow> error + bool" where
  "isRealError event =
     (if falsyPrim (errno event) then Inr False
      else
        (case the (errno event) of
           PStr label \<Rightarrow>
             Inr (\<not> includesStr label ''success'' \<and>
                  \<not> includesStr label ''unknown error code'' \<and>
                  \<not> includesStr label ''reachable'' \<and>
                  \<not> includesStr label ''Operation not supported'')
         | _ \<Rightarrow> Inl TypeError))"

text \<open>
  The variable \<^verbatim>\<open>result\<close> of \<^verbatim>\<open>formatEvent\<close>: the part of the line after the call;
  \<open>real\<close> is the value of \<^verbatim>\<open>isRealError\<close>.
\<close>

definition resultPart :: "palette \<Rightarrow> TraceEvent \<Rightarrow> bool \<Rightarrow> string" where
  "resultPart col event real =
     (if falsy (result event) then []
      else
        let formattedVal = formatResult (syscall event) (the (result event)) real in
        if real
        then red col @ ''= '' @ formattedVal @ '' '' @ toStringPrim (the (errno event)) @ reset col
        else dim col @ ''= '' @ formattedVal @ reset col)"

definition procName :: "TraceEvent \<Rightarrow> string" where
  "procName event =
     (case process event of
        None \<Rightarrow> ''?''
      | Some p \<Rightarrow>
          let nm = take 10 (takeWhile (\<lambda>ch. ch \<noteq> CHR '' '') p) in
          if nm = [] then ''?'' else nm)"

text \<open>\<^verbatim>\<open>event.pid || 0\<close>: a missing pid, \<^verbatim>\<open>NaN\<close> and zero give \<open>0\<close>.\<close>

definition pidOrZero :: "TraceEvent \<Rightarrow> jsnum" where
  "pidOrZero event =
     (case pid event of
        None \<Rightarrow> lit 0
      | Some n \<Rightarrow> if n = NaN \<or> numEq n (lit 0) then lit 0 else n)"

text \<open>
  \<^verbatim>\<open>formatEvent(event, options)\<close>. \<open>color\<close> is \<^verbatim>\<open>options.color\<close>, \<open>None\<close> when the
  option is left out; \<open>isTTY\<close> is \<^verbatim>\<open>process.stderr.isTTY\<close>, read from the environment
  only then. A decoder that returned the argument array has no \<^verbatim>\<open>replace\<close>, and the
  first replacement raises; after the decoding, the test of the error label can raise.
\<close>

definition paletteFor :: "bool \<Rightarrow> bool option \<Rightarrow> palette" where
  "paletteFor isTTY color =
     (let useColor = (case color of None \<Rightarrow> isTTY | Some b \<Rightarrow> b) in
      if useColor then ansi else plain)"

definition formatEvent ::
  "flagFormatters \<Rightarrow> bool \<Rightarrow> TraceEvent \<Rightarrow> bool option \<Rightarrow> error + string" where
  "formatEvent fm isTTY event color =
     (let col = paletteFor isTTY color;
          ts = compactTimestamp (timestamp event);
          dur = (if falsy (duration event) then [] else replaceFirst '' '' [] (the (duration event)));
          proc = procName event @ ''/'' @ numberToString (pidOrZero event);
          argv = (case args event of None \<Rightarrow> [] | Some xs \<Rightarrow> xs)
      in case decode fm (syscall event) argv of
           Inl e \<Rightarrow> Inl e
         | Inr (ArgArray xs) \<Rightarrow> Inl TypeError
         | Inr (Text decoded) \<Rightarrow>
             let decodedArgs = dimCommas col (dimClose col (dimOpen col decoded)) in
             (case isRealError event of
                Inl e \<Rightarrow> Inl e
              | Inr real \<Rightarrow>
                  let tsCol = gray col @ pad ts 6 True @ reset col;
                      durCol = yellow col @ pad dur 9 True @ reset col;
                      procCol = cyan col @ pad proc 16 False @ reset col;
                      syscallCol =
                        (if real then bold col @ red col @ syscall event @ reset col
                         else bold col @ syscall event @ reset col);
                      callCol = syscallCol @ decodedArgs
                  in Inr (trimEnd (tsCol @ '' '' @ durCol @ '' '' @ procCol @ '' '' @ callCol @
                                   '' '' @ resultPart col event real))))"

section \<open>The exporter\<close>

text \<open>
  The parsed document. The XML parser is configured to keep attribute values as
  strings and is left to convert element text. So a node is a primitive value (an
  element with only text, or an empty one, which is the empty string), an array
  (elements of one name repeated under a parent), or an object with its attributes
  (keys \<^verbatim>\<open>@_id\<close>, \<^verbatim>\<open>@_ref\<close>, \<^verbatim>\<open>@_fmt\<close>, ..., all strings), its text (\<^verbatim>\<open>#text\<close>, a
  primitive value) and its children by tag name, in the order of the object's keys. A
  property the source reads as \<^verbatim>\<open>undefined\<close> is \<open>None\<close>.
\<close>

datatype node =
    Leaf prim
  | Arr "node list"
  | Obj "(string \<times> string) list" "prim option" "(string \<times> node) list"

abbreviation Str :: "string \<Rightarrow> node" where
  "Str s \<equiv> Leaf (PStr s)"

type_synonym refMap = "string \<Rightarrow> node option"

fun attr :: "node \<Rightarrow> string \<Rightarrow> string option" where
  "attr (Obj as t cs) k = map_of as k"
| "attr n k = None"

fun textOf :: "node \<Rightarrow> prim option" where
  "textOf (Obj as t cs) = t"
| "textOf n = None"

fun child :: "node \<Rightarrow> string \<Rightarrow> node option" where
  "child (Obj as t cs) k = map_of cs k"
| "child n k = None"

text \<open>\<^verbatim>\<open>x?.k\<close> on a value that may be \<^verbatim>\<open>undefined\<close>.\<close>

fun childOpt :: "node option \<Rightarrow> string \<Rightarrow> node option" where
  "childOpt None k = None"
| "childOpt (Some n) k = child n k"

text \<open>\<^verbatim>\<open>typeof x === "object"\<close>, which holds for an array too.\<close>

fun isObject :: "node \<Rightarrow> bool" where
  "isObject (Leaf p) = False"
| "isObject n = True"

fun truthy :: "node option \<Rightarrow> bool" where
  "truthy None = False"
| "truthy (Some (Leaf p)) = truthyPrim p"
| "truthy (Some n) = True"

fun buildRefMap :: "node \<Rightarrow> refMap \<Rightarrow> refMap"
  and buildRefMapItems :: "node list \<Rightarrow> refMap \<Rightarrow> refMap"
  and buildRefMapValues :: "(string \<times> node) list \<Rightarrow> refMap \<Rightarrow> refMap" where
  "buildRefMap (Leaf p) m = m"
| "buildRefMap (Arr items) m = buildRefMapItems items m"
| "buildRefMap (Obj as t cs) m =
     buildRefMapValues cs
       (case map_of as ''@_id'' of None \<Rightarrow> m | Some i \<Rightarrow> m(i \<mapsto> Obj as t cs))"
| "buildRefMapItems [] m = m"
| "buildRefMapItems (item # items) m = buildRefMapItems items (buildRefMap item m)"
| "buildRefMapValues [] m = m"
| "buildRefMapValues (kv # kvs) m = buildRefMapValues kvs (buildRefMap (snd kv) m)"

fun resolveValue :: "node option \<Rightarrow> refMap \<Rightarrow> node option" where
  "resolveValue None m = None"
| "resolveValue (Some n) m =
     (case attr n ''@_ref'' of
        None \<Rightarrow> Some n
      | Some r \<Rightarrow> (case m r of None \<Rightarrow> Some n | Some target \<Rightarrow> Some target))"

definition getFmt :: "node option \<Rightarrow> refMap \<Rightarrow> string option" where
  "getFmt obj m = (case resolveValue obj m of None \<Rightarrow> None | Some resolved \<Rightarrow> attr resolved ''@_fmt'')"

text \<open>
  \<^verbatim>\<open>getText\<close> on the resolved value: a string is returned, any other primitive value
  gives \<^verbatim>\<open>undefined\<close>, and an object or an array gives
  \<^verbatim>\<open>rec["#text"] ?? rec["@_fmt"]\<close>, the text as the parser delivered it. The casts
  \<^verbatim>\<open>as string\<close> of the source check nothing, so the value returned need not be a
  string.
\<close>

fun textValue :: "node \<Rightarrow> prim option" where
  "textValue (Leaf (PStr s)) = Some (PStr s)"
| "textValue (Leaf p) = None"
| "textValue n =
     (case textOf n of None \<Rightarrow> map_option PStr (attr n ''@_fmt'') | Some t \<Rightarrow> Some t)"

definition getText :: "node option \<Rightarrow> refMap \<Rightarrow> prim option" where
  "getText obj m = (case resolveValue obj m of None \<Rightarrow> None | Some resolved \<Rightarrow> textValue resolved)"

text \<open>\<^verbatim>\<open>getFmt(x, refMap) ?? getText(x, refMap)\<close>.\<close>

definition fmtOrText :: "node option \<Rightarrow> refMap \<Rightarrow> prim option" where
  "fmtOrText obj m = (case getFmt obj m of None \<Rightarrow> getText obj m | Some v \<Rightarrow> Some (PStr v))"

text \<open>\<^verbatim>\<open>syscall.replace(/^[BM]SC_/, "")\<close> on a string.\<close>

definition stripClassPrefix :: "string \<Rightarrow> string" where
  "stripClassPrefix s = (if startsWith s ''BSC_'' \<or> startsWith s ''MSC_'' then drop 4 s else s)"

text \<open>The loop over an array of candidate return nodes: the first non-empty formatted value.\<close>

fun firstFmt :: "node list \<Rightarrow> refMap \<Rightarrow> string option" where
  "firstFmt [] m = None"
| "firstFmt (el # els) m =
     (if falsy (getFmt (Some el) m) then firstFmt els m else getFmt (Some el) m)"

fun pushArgs :: "node list \<Rightarrow> refMap \<Rightarrow> string list \<Rightarrow> string list" where
  "pushArgs [] m acc = acc"
| "pushArgs (argEl # argEls) m acc =
     (if falsy (getFmt (Some argEl) m) then pushArgs argEls m acc
      else pushArgs argEls m (acc @ [the (getFmt (Some argEl) m)]))"

definition asList :: "node \<Rightarrow> node list" where
  "asList n = (case n of Arr items \<Rightarrow> items | _ \<Rightarrow> [n])"

text \<open>The constants \<^verbatim>\<open>syscall\<close> and \<^verbatim>\<open>tidStr\<close> of the loop body.\<close>

definition rawSyscall :: "node \<Rightarrow> refMap \<Rightarrow> prim" where
  "rawSyscall row m =
     (case fmtOrText (child row ''syscall'') m of None \<Rightarrow> PStr ''unknown'' | Some v \<Rightarrow> v)"

definition rawTid :: "node \<Rightarrow> refMap \<Rightarrow> prim option" where
  "rawTid row m = fmtOrText (childOpt (resolveValue (child row ''thread'') m) ''tid'') m"

text \<open>
  The body of the loop of \<^verbatim>\<open>exportTrace\<close> for one row that passed the guard. The body
  calls \<^verbatim>\<open>replace\<close> on the thread id, when that is not falsy, and on the syscall name:
  a value that is not a string has no such method, and the call raises a
  \<^verbatim>\<open>TypeError\<close>. Nothing else in the body can raise.
\<close>

definition rowEvent :: "node \<Rightarrow> refMap \<Rightarrow> error + TraceEvent" where
  "rowEvent row m =
     (let sig = (case getFmt (child row ''formatted-label'') m of None \<Rightarrow> [] | Some s \<Rightarrow> s);
          sc = rawSyscall row m;
          ts = (case getFmt (child row ''start-time'') m of None \<Rightarrow> [] | Some s \<Rightarrow> s);
          processEl = resolveValue (child row ''process'') m;
          pidStr = fmtOrText (childOpt processEl ''pid'') m;
          tidStr = rawTid row m;
          returnEl = child row ''syscall-return'';
          narrativeEl = child row ''narrative'';
          argEls = child row ''syscall-arg''
      in if \<not> falsyPrim tidStr \<and> \<not> isString (the tidStr) then Inl TypeError
         else
           (case sc of
              PStr name \<Rightarrow>
                Inr \<lparr>timestamp = ts,
                     duration = getFmt (child row ''duration'') m,
                     syscall = stripClassPrefix name,
                     signature = (if sig = [] then stripClassPrefix name else sig),
                     pid = (if falsyPrim pidStr then None
                            else Some (parseInt (toStringPrim (the pidStr)) 10)),
                     tid = (if falsyPrim tidStr then None
                            else Some (parseInt (replaceFirst ''0x'' []
                                                   (toStringPrim (the tidStr))) 16)),
                     process = getFmt processEl m,
                     result = (case returnEl of
                                 Some (Arr els) \<Rightarrow> firstFmt els m
                               | _ \<Rightarrow> getFmt returnEl m),
                     errno = (if truthy narrativeEl
                              then fmtOrText (childOpt (resolveValue narrativeEl m) ''errno'') m
                              else None),
                     args = Some (if truthy argEls then pushArgs (asList (the argEls)) m []
                                  else [])\<rparr>
            | _ \<Rightarrow> Inl TypeError))"

fun exportRows :: "node list \<Rightarrow> refMap \<Rightarrow> TraceEvent list \<Rightarrow> error + TraceEvent list" where
  "exportRows [] m events = Inr events"
| "exportRows (row # rows) m events =
     (if \<not> isObject row then exportRows rows m events
      else
        (case rowEvent row m of
           Inl e \<Rightarrow> Inl e
         | Inr event \<Rightarrow> exportRows rows m (events @ [event])))"

text \<open>
  \<^verbatim>\<open>exportTrace\<close> from the parsed document \<open>data\<close> on: what runs after the export
  tool has been called and its output parsed. An exception raised in the loop leaves
  the function, and no event is returned.
\<close>

definition exportTrace :: "node \<Rightarrow> error + TraceEvent list" where
  "exportTrace data =
     (let queryResult = child data ''trace-query-result'' in
      if \<not> truthy queryResult then Inr []
      else
        let nd = childOpt queryResult ''node'' in
        if \<not> truthy nd then Inr []
        else
          let m = buildRefMap (the nd) Map.empty;
              rows = childOpt nd ''row''
          in if \<not> truthy rows then Inr [] else exportRows (asList (the rows)) m [])"

text \<open>
  The rows of the result table of a document, \<^verbatim>\<open>trace-query-result.node.row\<close> as a
  list (one row alone is not wrapped in an array by the parser), and the reference map
  of the document.
\<close>

definition rowList :: "node \<Rightarrow> node list" where
  "rowList data =
     (case childOpt (childOpt (child data ''trace-query-result'') ''node'') ''row'' of
        None \<Rightarrow> []
      | Some rows \<Rightarrow> asList rows)"

definition refMapOf :: "node \<Rightarrow> refMap" where
  "refMapOf data =
     (case childOpt (child data ''trace-query-result'') ''node'' of
        None \<Rightarrow> Map.empty
      | Some nd \<Rightarrow> buildRefMap nd Map.empty)"

text \<open>
  A row is \<open>readable\<close> when the two values the loop body calls \<^verbatim>\<open>replace\<close> on are
  strings: the syscall name, and the thread id unless it is falsy. Both are, whenever
  the element has a formatted value (the attribute \<^verbatim>\<open>fmt\<close>) or its text was left a
  string by the parser.
\<close>

definition readable :: "node \<Rightarrow> refMap \<Rightarrow> bool" where
  "readable row m =
     (isString (rawSyscall row m) \<and> (falsyPrim (rawTid row m) \<or> isString (the (rawTid row m))))"

text \<open>
  The pipeline of \<^verbatim>\<open>index.ts\<close>: every exported event is formatted with the colour
  option set, \<^verbatim>\<open>formatEvent(event, { color: options.color })\<close>, each line written
  as it is produced.
\<close>

fun writeEvents ::
  "flagFormatters \<Rightarrow> bool \<Rightarrow> bool \<Rightarrow> TraceEvent list \<Rightarrow> string list \<Rightarrow> string list \<times> error option" where
  "writeEvents fm isTTY color [] out = (out, None)"
| "writeEvents fm isTTY color (event # events) out =
     (case formatEvent fm isTTY event (Some color) of
        Inl e \<Rightarrow> (out, Some e)
      | Inr line \<Rightarrow> writeEvents fm isTTY color events (out @ [line @ [CHR 0x0A]]))"

text \<open>
  What one run writes for a document: the lines written before the run ends, and the
  exception that ended it, if any. Nothing is written when the extraction raises.
\<close>

definition renderTrace ::
  "flagFormatters \<Rightarrow> bool \<Rightarrow> node \<Rightarrow> bool \<Rightarrow> string list \<times> error option" where
  "renderTrace fm isTTY data color =
     (case exportTrace data of
        Inl e \<Rightarrow> ([], Some e)
      | Inr events \<Rightarrow> writeEvents fm isTTY color events [])"

section \<open>The specification's wording of the normalization convention\<close>

text \<open>
  The specification describes the prefix that is stripped from a syscall name as a
  two-letter uppercase class marker followed by an underscore. \<open>hasTwoLetterMarker\<close>
  is that description, to be compared with \<open>stripClassPrefix\<close>.
\<close>

definition isUpper :: "char \<Rightarrow> bool" where
  "isUpper ch = (65 \<le> (of_char ch :: nat) \<and> (of_char ch :: nat) \<le> 90)"

fun hasTwoLetterMarker :: "string \<Rightarrow> bool" where
  "hasTwoLetterMarker (a # b # u # rest) = (isUpper a \<and> isUpper b \<and> u = CHR ''_'')"
| "hasTwoLetterMarker s = False"

section \<open>Sample inputs\<close>

text \<open>
  A small export in the shape the parser produces: a read that returns 2293 bytes, an
  empty row, and a failing \<^verbatim>\<open>stat64\<close> whose process is a reference to the process of
  the first row.
\<close>

definition sampleReadRow :: node where
  "sampleReadRow =
     Obj [] None
       [(''start-time'', Obj [(''@_id'', ''1''), (''@_fmt'', ''00:01.234.567'')] None []),
        (''duration'', Obj [(''@_fmt'', ''12.50 us'')] None []),
        (''syscall'', Obj [(''@_fmt'', ''BSC_read'')] None []),
        (''process'', Obj [(''@_id'', ''5''), (''@_fmt'', ''cat (1234)'')] None
           [(''pid'', Obj [(''@_fmt'', ''1234'')] None [])]),
        (''syscall-return'', Obj [(''@_fmt'', ''0x8f5'')] None []),
        (''syscall-arg'',
           Arr [Obj [(''@_fmt'', ''0x3'')] None [], Obj [(''@_fmt'', ''0x16b473548'')] None [],
                Obj [(''@_fmt'', ''0x1000'')] None []])]"

definition sampleStatRow :: node where
  "sampleStatRow =
     Obj [] None
       [(''start-time'', Obj [(''@_fmt'', ''00:01.300.000'')] None []),
        (''syscall'', Obj [(''@_fmt'', ''BSC_stat64'')] None []),
        (''process'', Obj [(''@_ref'', ''5'')] None []),
        (''syscall-return'', Obj [(''@_fmt'', ''0xffffffffffffffff'')] None []),
        (''narrative'',
           Obj [] None [(''errno'', Obj [(''@_fmt'', ''ENOENT no such file or directory'')] None [])]),
        (''syscall-arg'',
           Arr [Obj [(''@_fmt'', ''0x16b473548'')] None [], Obj [(''@_fmt'', ''0x16b473000'')] None []])]"

definition sampleDoc :: "node list \<Rightarrow> node" where
  "sampleDoc rows =
     Obj [] None
       [(''trace-query-result'', Obj [] None [(''node'', Obj [] None [(''row'', Arr rows)])])]"

definition sampleReadEvent :: TraceEvent where
  "sampleReadEvent =
     \<lparr>timestamp = ''00:01.234.567'', duration = Some ''12.50 us'', syscall = ''read'',
      signature = ''read'', pid = Some (lit 1234), tid = None, process = Some ''cat (1234)'',
      result = Some ''0x8f5'', errno = None,
      args = Some [''0x3'', ''0x16b473548'', ''0x1000'']\<rparr>"

definition sampleStatEvent :: TraceEvent where
  "sampleStatEvent =
     \<lparr>timestamp = ''00:01.300.000'', duration = None, syscall = ''stat64'',
      signature = ''stat64'', pid = Some (lit 1234), tid = None, process = Some ''cat (1234)'',
      result = Some ''0xffffffffffffffff'', errno = Some (PStr ''ENOENT no such file or directory''),
      args = Some [''0x16b473548'', ''0x16b473000'']\<rparr>"

text \<open>A three-node index: the node with id 5 is itself a reference to the node with id 6.\<close>

definition sampleTarget :: node where
  "sampleTarget = Obj [(''@_id'', ''5''), (''@_ref'', ''6''), (''@_fmt'', ''five'')] None []"

definition sampleLeaf :: node where
  "sampleLeaf = Obj [(''@_id'', ''6''), (''@_fmt'', ''six'')] None []"

definition sampleIndex :: refMap where
  "sampleIndex = buildRefMap (Arr [sampleTarget, sampleLeaf]) Map.empty"

section \<open>Evaluation\<close>

text \<open>Unfolding rules that let the simplifier run the definitions on literals.\<close>

lemma decimal_numeral:
  "decimal (numeral k) =
     (if (numeral k :: nat) < 10 then [digitChar (numeral k)]
      else decimal (numeral k div 10) @ [digitChar (numeral k mod 10)])"
  by (rule decimal.simps)

lemma decimal_0: "decimal 0 = ''0''"
  by (simp add: decimal.simps digitChar_def)

lemma decimal_1: "decimal 1 = ''1''" "decimal (Suc 0) = ''1''"
  by (simp_all add: decimal.simps digitChar_def)

lemma bitlen_numeral: "bitlen (numeral k) = Suc (bitlen (numeral k div 2))"
  by (subst bitlen.simps) simp

lemma bitlen_0: "bitlen 0 = 0"
  by (simp add: bitlen.simps)

lemma bitlen_1: "bitlen 1 = 1" "bitlen (Suc 0) = 1"
  by (simp_all add: bitlen.simps)

lemma replicate_numeral: "replicate (numeral k) x = x # replicate (pred_numeral k) x"
  by (simp add: numeral_eq_Suc)

text \<open>
  Below \<open>2 ^ 53\<close> the number accumulated from the left is the exact value of the
  numeral, and a decimal numeral is always read as the double nearest to its value.
\<close>

lemma roundDouble_small: "n < 2 ^ 53 \<Longrightarrow> roundDouble n = Some n"
  by (simp add: roundDouble_def)

lemma bitlen_bounds: "0 < n \<Longrightarrow> 2 ^ (bitlen n - 1) \<le> n \<and> n < 2 ^ bitlen n"
proof (induction n rule: bitlen.induct)
  case (1 n)
  show ?case
  proof (cases "n div 2 = 0")
    case True
    with 1(2) have "n = 1" by presburger
    then show ?thesis by (simp add: bitlen_1)
  next
    case False
    then have pos: "0 < n div 2" by simp
    from 1(1) [OF _ pos] 1(2)
    have ih: "2 ^ (bitlen (n div 2) - 1) \<le> n div 2 \<and> n div 2 < 2 ^ bitlen (n div 2)" by simp
    have bl: "bitlen n = Suc (bitlen (n div 2))" using 1(2) by (subst bitlen.simps) simp
    have "0 < bitlen (n div 2)" using pos by (subst bitlen.simps) simp
    then have e: "bitlen n - 1 = Suc (bitlen (n div 2) - 1)" using bl by simp
    from ih have a: "2 * 2 ^ (bitlen (n div 2) - 1) \<le> n" by presburger
    from ih have b: "n < 2 * 2 ^ bitlen (n div 2)" by presburger
    have p1: "(2::nat) ^ (bitlen n - 1) = 2 * 2 ^ (bitlen (n div 2) - 1)"
      by (simp only: e power_Suc)
    have p2: "(2::nat) ^ bitlen n = 2 * 2 ^ bitlen (n div 2)"
      by (simp only: bl power_Suc)
    from a b show ?thesis by (simp only: p1 p2)
  qed
qed

lemma roundDouble_ge:
  assumes "2 ^ 53 \<le> n" and "roundDouble n = Some d"
  shows "2 ^ 53 \<le> d"
proof -
  define e where "e = bitlen n - 53"
  from assms(1) have pos: "0 < n" by (simp add: order.strict_trans2 [of 0 "2 ^ 53" n])
  note bb = bitlen_bounds [OF pos]
  have "bitlen n > 53"
  proof (rule ccontr)
    assume "\<not> 53 < bitlen n"
    then have "bitlen n \<le> 53" by simp
    then have "(2::nat) ^ bitlen n \<le> 2 ^ 53" by (rule power_increasing) simp
    with bb assms(1) show False by simp
  qed
  then have bl: "bitlen n - 1 = 52 + e" by (simp add: e_def)
  have "(2::nat) ^ (bitlen n - 1) = 2 ^ 52 * 2 ^ e" by (simp only: bl power_add)
  with bb have "(2::nat) ^ 52 * 2 ^ e \<le> n" by simp
  then have q: "2 ^ 52 \<le> n div 2 ^ e"
    by (simp add: less_eq_div_iff_mult_less_eq)
  have e1: "1 \<le> e" using \<open>bitlen n > 53\<close> by (simp add: e_def)
  then have p: "(2::nat) \<le> 2 ^ e" using power_increasing [of 1 e "2::nat"] by simp
  have low: "(2::nat) ^ 53 \<le> q' * 2 ^ e" if "n div 2 ^ e \<le> q'" for q'
  proof -
    from q that have "2 ^ 52 \<le> q'" by simp
    then have "2 ^ 52 * 2 \<le> q' * 2 ^ e" using p by (rule mult_le_mono)
    then show ?thesis by simp
  qed
  define q' where "q' = (if 2 ^ (e - 1) < n mod 2 ^ e \<or> (n mod 2 ^ e = 2 ^ (e - 1) \<and> odd (n div 2 ^ e))
                         then n div 2 ^ e + 1 else n div 2 ^ e)"
  from assms have "\<not> n < 2 ^ 53" by simp
  then have "roundDouble n = (if 2 ^ 1024 \<le> q' * 2 ^ e then None else Some (q' * 2 ^ e))"
    by (simp only: roundDouble_def Let_def e_def q'_def if_False)
  with assms(2) have d: "d = q' * 2 ^ e" by (simp split: if_splits)
  have "n div 2 ^ e \<le> q'" by (simp add: q'_def)
  from low [OF this] d show ?thesis by simp
qed

lemma numeralValue_snoc: "numeralValue R (Z @ [c]) = numeralValue R Z * R + digitOf c"
  by (simp add: numeralValue_def)

lemma accumulate_snoc:
  "accumulate R (Z @ [c]) = addDouble (mulDouble (accumulate R Z) R) (digitOf c)"
  by (simp add: accumulate_def)

lemma accumulate_exact:
  "0 < R \<Longrightarrow> numeralValue R Z < 2 ^ 53 \<Longrightarrow> accumulate R Z = Some (numeralValue R Z)"
proof (induction Z rule: rev_induct)
  case Nil
  show ?case by (simp add: accumulate_def numeralValue_def)
next
  case (snoc c Z)
  from snoc(2) have "1 \<le> R" by simp
  then have "numeralValue R Z * 1 \<le> numeralValue R Z * R" by (rule mult_le_mono2)
  then have le: "numeralValue R Z \<le> numeralValue R Z * R" by (simp only: nat_mult_1_right)
  from snoc(3) have "numeralValue R Z * R + digitOf c < 2 ^ 53" by (simp add: numeralValue_snoc)
  with le have small: "numeralValue R Z * R < 2 ^ 53" "numeralValue R Z < 2 ^ 53"
    by linarith+
  from snoc(1) [OF snoc(2) small(2)] small(1) snoc(3) show ?case
    by (simp add: accumulate_snoc numeralValue_snoc mulDouble_def addDouble_def roundDouble_small)
qed

lemma roundDouble_below:
  "roundDouble n = Some x \<Longrightarrow> x < 2 ^ 53 \<Longrightarrow> n = x"
proof -
  assume a: "roundDouble n = Some x" and b: "x < 2 ^ 53"
  have "n < 2 ^ 53"
  proof (rule ccontr)
    assume "\<not> n < 2 ^ 53"
    then have "2 ^ 53 \<le> n" by simp
    from roundDouble_ge [OF this a] b show False by simp
  qed
  with a show ?thesis by (simp add: roundDouble_def)
qed

lemma accumulate_below:
  "0 < R \<Longrightarrow> accumulate R Z = Some x \<Longrightarrow> x < 2 ^ 53 \<Longrightarrow> numeralValue R Z = x"
proof (induction Z arbitrary: x rule: rev_induct)
  case Nil
  then show ?case by (simp add: accumulate_def numeralValue_def)
next
  case (snoc c Z)
  from snoc(3) obtain y where y: "accumulate R Z = Some y"
    by (cases "accumulate R Z") (simp_all add: accumulate_snoc mulDouble_def addDouble_def)
  with snoc(3) obtain p where p: "roundDouble (y * R) = Some p"
    by (cases "roundDouble (y * R)") (simp_all add: accumulate_snoc mulDouble_def addDouble_def)
  with snoc(3) y have s: "roundDouble (p + digitOf c) = Some x"
    by (simp add: accumulate_snoc mulDouble_def addDouble_def)
  from roundDouble_below [OF s snoc(4)] have x: "p + digitOf c = x" .
  with snoc(4) have "p < 2 ^ 53" by simp
  from roundDouble_below [OF p this] have pr: "y * R = p" .
  from snoc(2) have "1 \<le> R" by simp
  then have "y * 1 \<le> y * R" by (rule mult_le_mono2)
  then have "y \<le> y * R" by (simp only: nat_mult_1_right)
  with pr \<open>p < 2 ^ 53\<close> have "y < 2 ^ 53" by simp
  from snoc(1) [OF snoc(2) y this] pr x show ?case by (simp add: numeralValue_snoc)
qed

lemma radixValue_small:
  "0 < R \<Longrightarrow> numeralValue R Z < 2 ^ 53 \<Longrightarrow> radixValue R Z = Some (numeralValue R Z)"
  by (simp add: radixValue_def accumulate_exact)

lemma radixValue_10: "radixValue 10 Z = roundDouble (numeralValue 10 Z)"
proof (cases "accumulate 10 Z")
  case None
  then show ?thesis by (simp add: radixValue_def)
next
  case (Some x)
  show ?thesis
  proof (cases "x < 2 ^ 53")
    case True
    have "numeralValue 10 Z = x" by (rule accumulate_below [OF _ Some True]) simp
    with Some True show ?thesis by (simp add: radixValue_def roundDouble_small)
  next
    case False
    with Some show ?thesis by (simp add: radixValue_def)
  qed
qed

text \<open>Three numerals of 64 bits, read by the sum from the right.\<close>

lemma radixValue_big:
  "radixValue 16 ''ffffffff00000000'' = Some 18446744069414584320"
  "radixValue 16 ''ffffffffffffffff'' = Some 18446744073709551616"
  "radixValue 16 ''ffffffff00000401'' = Some 18446744069414584320"
  by (simp_all add: radixValue_def accumulate_def addDouble_def mulDouble_def roundDouble_def
      digitOf_def digitVal_def bitlen_numeral bitlen_0 bitlen_1 Let_def)

lemmas num_eval =
  replicate_numeral decimal_numeral decimal_0 decimal_1 bitlen_numeral bitlen_0 bitlen_1
  digitChar_def parseHex_def parseInt_def numeralRun_def stripSign_def stripRadixPrefix_def
  isWhiteSpace_def isRadixDigit_def digitVal_def digitOf_def numeralValue_def toNumber_def
  withSign_def radixValue_small radixValue_big
  roundDouble_def numGreater_def numLessEq_def numGreaterEq_def magnitudeString_def
  fd_def intArg_def Let_def

lemmas sets_eval = fdReturnSyscalls_def addrReturnSyscalls_def byteCountReturnSyscalls_def

lemmas export_eval =
  exportTrace_def rowEvent_def rawSyscall_def rawTid_def readable_def fmtOrText_def getFmt_def
  getText_def asList_def stripClassPrefix_def rowList_def refMapOf_def

lemmas format_eval =
  formatEvent_def paletteFor_def plain_def ansi_def compactTimestamp_def isDigit_def
  procName_def pidOrZero_def decode_def decoders_def objectPrototypeKeys_def
  defaultDecoder_def runDecoder_def nthOpt_def template_def orZero_def dimOpen_def
  dimClose_def pad_def trimEnd_def isRealError_def resultPart_def formatResult_def

lemma exportTrace_sample:
  "exportTrace (sampleDoc [sampleReadRow, Str [], sampleStatRow]) =
     Inr [sampleReadEvent, sampleStatEvent]"
  by (simp add: sampleDoc_def sampleReadRow_def sampleStatRow_def sampleReadEvent_def
      sampleStatEvent_def export_eval num_eval)

lemma formatEvent_sampleRead:
  "formatEvent fm isTTY sampleReadEvent (Some False) =
     Inr ''01.234   12.50us cat/1234         read(<fd:3>, 0x16b473548, 4096) = 2293''"
  by (simp add: sampleReadEvent_def format_eval num_eval sets_eval)

lemma formatEvent_sampleStat:
  "formatEvent fm isTTY sampleStatEvent (Some False) =
     Inr ''01.300           cat/1234         stat64(0x16b473548, 0x16b473000) = -1 ENOENT no such file or directory''"
  by (simp add: sampleStatEvent_def format_eval num_eval sets_eval)

section \<open>Reference resolution\<close>

text \<open>
  C5. Resolving a node without a reference attribute returns the node; resolving a node
  whose reference is in the index returns the indexed node after one hop, whatever that
  node is (it is not resolved again); resolving a node whose reference is not in the
  index returns the node itself; and resolution always returns a node (the function has
  no failing branch).
\<close>

theorem resolveValue_one_hop:
  "(attr n ''@_ref'' = None \<longrightarrow> resolveValue (Some n) m = Some n) \<and>
   (attr n ''@_ref'' = Some r \<and> m r = Some target \<longrightarrow> resolveValue (Some n) m = Some target) \<and>
   (attr n ''@_ref'' = Some r \<and> m r = None \<longrightarrow> resolveValue (Some n) m = Some n) \<and>
   (\<exists>res. resolveValue (Some n) m = Some res)"
  by (auto split: option.splits)

theorem resolveValue_one_hop_witness:
  "attr sampleLeaf ''@_ref'' = None \<and>
   resolveValue (Some sampleLeaf) sampleIndex = Some sampleLeaf \<and>
   attr (Obj [(''@_ref'', ''5'')] None []) ''@_ref'' = Some ''5'' \<and>
   sampleIndex ''5'' = Some sampleTarget \<and>
   attr sampleTarget ''@_ref'' = Some ''6'' \<and>
   sampleIndex ''6'' = Some sampleLeaf \<and>
   resolveValue (Some (Obj [(''@_ref'', ''5'')] None [])) sampleIndex = Some sampleTarget \<and>
   sampleIndex ''9'' = None \<and>
   resolveValue (Some (Obj [(''@_ref'', ''9'')] None [])) sampleIndex =
     Some (Obj [(''@_ref'', ''9'')] None [])"
  using resolveValue_one_hop [of sampleLeaf sampleIndex]
    resolveValue_one_hop [of "Obj [(''@_ref'', ''5'')] None []" sampleIndex "''5''" sampleTarget]
    resolveValue_one_hop [of "Obj [(''@_ref'', ''9'')] None []" sampleIndex "''9''"]
  by (simp add: sampleIndex_def sampleTarget_def sampleLeaf_def)

section \<open>Extraction\<close>

lemma rowEvent_readable: "(\<exists>e. rowEvent row m = Inr e) \<longleftrightarrow> readable row m"
  by (cases "rawSyscall row m") (auto simp: rowEvent_def readable_def Let_def)

lemma exportRows_readable:
  "list_all (\<lambda>row. readable row m) (filter isObject rows) \<Longrightarrow>
   \<exists>evs. exportRows rows m events = Inr (events @ evs) \<and>
         map Inr evs = map (\<lambda>row. rowEvent row m) (filter isObject rows)"
proof (induction rows arbitrary: events)
  case Nil
  show ?case by simp
next
  case (Cons row rows)
  show ?case
  proof (cases "isObject row")
    case False
    with Cons show ?thesis by simp
  next
    case True
    with Cons(2) have "readable row m" and rest: "list_all (\<lambda>row. readable row m) (filter isObject rows)"
      by simp_all
    then obtain e where e: "rowEvent row m = Inr e" using rowEvent_readable [of row m] by blast
    from Cons(1) [OF rest, of "events @ [e]"] obtain evs where
      "exportRows rows m (events @ [e]) = Inr ((events @ [e]) @ evs)"
      "map Inr evs = map (\<lambda>row. rowEvent row m) (filter isObject rows)"
      by blast
    with True e have "exportRows (row # rows) m events = Inr (events @ (e # evs)) \<and>
        map Inr (e # evs) = map (\<lambda>row. rowEvent row m) (filter isObject (row # rows))"
      by simp
    then show ?thesis by blast
  qed
qed

lemma falsy_rows_no_object: "\<not> truthy (Some rows) \<Longrightarrow> filter isObject (asList rows) = []"
  by (cases rows) (simp_all add: asList_def)

lemma exportTrace_map_filter:
  assumes "list_all (\<lambda>row. readable row (refMapOf data)) (filter isObject (rowList data))"
  shows "\<exists>events. exportTrace data = Inr events \<and>
           map Inr events =
             map (\<lambda>row. rowEvent row (refMapOf data)) (filter isObject (rowList data))"
proof (cases "child data ''trace-query-result''")
  case None
  then show ?thesis by (simp add: exportTrace_def rowList_def)
next
  case (Some q)
  note q = this
  show ?thesis
  proof (cases "child q ''node''")
    case None
    with q show ?thesis by (simp add: exportTrace_def rowList_def Let_def)
  next
    case (Some nd)
    note nd = this
    have tq: "truthy (Some q)" using nd by (cases q) simp_all
    show ?thesis
    proof (cases "child nd ''row''")
      case None
      with q nd show ?thesis by (simp add: exportTrace_def rowList_def Let_def)
    next
      case (Some rows)
      have tn: "truthy (Some nd)" using Some by (cases nd) simp_all
      show ?thesis
      proof (cases "truthy (Some rows)")
        case True
        from assms q nd Some
        have "list_all (\<lambda>row. readable row (buildRefMap nd Map.empty)) (filter isObject (asList rows))"
          by (simp add: rowList_def refMapOf_def)
        from exportRows_readable [OF this, of "[]"] q nd Some tq tn True show ?thesis
          by (simp add: exportTrace_def rowList_def refMapOf_def Let_def)
      next
        case False
        with q nd Some tq tn show ?thesis
          by (simp add: exportTrace_def rowList_def refMapOf_def Let_def falsy_rows_no_object)
      qed
    qed
  qed
qed

lemma rowEvent_name:
  "rowEvent row m = Inr e \<Longrightarrow> \<exists>s. rawSyscall row m = PStr s \<and> syscall e = stripClassPrefix s"
  by (cases "rawSyscall row m") (auto simp: rowEvent_def Let_def split: if_splits)

lemma rawSyscall_unknown:
  "fmtOrText (child row ''syscall'') m = None \<Longrightarrow> rawSyscall row m = PStr ''unknown''"
  by (simp add: rawSyscall_def)

lemma fmtOrText_absent: "fmtOrText None m = None"
  by (simp add: fmtOrText_def getFmt_def getText_def)

lemma rawSyscall_empty: "child row ''syscall'' = Some (Str []) \<Longrightarrow> rawSyscall row m = PStr []"
  by (simp add: rawSyscall_def fmtOrText_def getFmt_def getText_def)

text \<open>
  C1, as the code has it. A row is read when its syscall name and its thread id are
  strings, which they are whenever they come from a formatted value or from text the
  parser left a string. For a document whose object rows are all readable, the
  extraction returns, and it returns exactly one event for every row that is an object,
  in the order of the rows; the loop skips a row that is not an object (an empty or
  text-only row element, which the parser gives as a primitive value); so a document
  whose rows are all objects has as many events as rows. Every readable row gives an
  event: one named \<^verbatim>\<open>unknown\<close> when neither a formatted value nor a text is found for
  the name, as in a row with no syscall child, and one with the empty name when the
  syscall child is an empty element.
\<close>

theorem exportTrace_one_event_per_object_row:
  "(list_all (\<lambda>row. readable row (refMapOf data)) (filter isObject (rowList data)) \<longrightarrow>
      (\<exists>events. exportTrace data = Inr events \<and>
         map Inr events =
           map (\<lambda>row. rowEvent row (refMapOf data)) (filter isObject (rowList data)) \<and>
         length events = length (filter isObject (rowList data)) \<and>
         (list_all isObject (rowList data) \<longrightarrow> length events = length (rowList data)))) \<and>
   (\<forall>row m. readable row m \<longrightarrow> (\<exists>e. rowEvent row m = Inr e)) \<and>
   (\<forall>row m e. fmtOrText (child row ''syscall'') m = None \<and> rowEvent row m = Inr e \<longrightarrow>
      syscall e = ''unknown'') \<and>
   (\<forall>row m. child row ''syscall'' = None \<longrightarrow> fmtOrText (child row ''syscall'') m = None) \<and>
   (\<forall>row m e. child row ''syscall'' = Some (Str []) \<and> rowEvent row m = Inr e \<longrightarrow> syscall e = [])"
proof -
  have a: "\<exists>events. exportTrace data = Inr events \<and>
         map Inr events =
           map (\<lambda>row. rowEvent row (refMapOf data)) (filter isObject (rowList data)) \<and>
         length events = length (filter isObject (rowList data)) \<and>
         (list_all isObject (rowList data) \<longrightarrow> length events = length (rowList data))"
    if r: "list_all (\<lambda>row. readable row (refMapOf data)) (filter isObject (rowList data))"
  proof -
    from exportTrace_map_filter [OF r] obtain events where
      ev: "exportTrace data = Inr events"
      and mp: "map Inr events =
           map (\<lambda>row. rowEvent row (refMapOf data)) (filter isObject (rowList data))"
      by blast
    from mp have "length (map Inr events :: (error + TraceEvent) list) =
        length (map (\<lambda>row. rowEvent row (refMapOf data)) (filter isObject (rowList data)))"
      by (rule arg_cong)
    then have len: "length events = length (filter isObject (rowList data))" by simp
    have "list_all isObject (rowList data) \<Longrightarrow> filter isObject (rowList data) = rowList data"
      by (simp add: list_all_iff)
    with ev mp len show ?thesis by auto
  qed
  have b: "\<And>row m. readable row m \<Longrightarrow> \<exists>e. rowEvent row m = Inr e"
    using rowEvent_readable by blast
  have c: "\<And>row m e. fmtOrText (child row ''syscall'') m = None \<Longrightarrow> rowEvent row m = Inr e \<Longrightarrow>
      syscall e = ''unknown''"
    using rowEvent_name rawSyscall_unknown by (fastforce simp: stripClassPrefix_def)
  have d: "\<And>row m. child row ''syscall'' = None \<Longrightarrow> fmtOrText (child row ''syscall'') m = None"
    by (simp add: fmtOrText_absent)
  have e: "\<And>row m e. child row ''syscall'' = Some (Str []) \<Longrightarrow> rowEvent row m = Inr e \<Longrightarrow>
      syscall e = []"
    using rowEvent_name rawSyscall_empty by (fastforce simp: stripClassPrefix_def)
  from a b c d e show ?thesis by blast
qed

theorem exportTrace_one_event_per_object_row_witness:
  "list_all (\<lambda>row. readable row (refMapOf (sampleDoc [sampleReadRow, sampleStatRow])))
     (filter isObject (rowList (sampleDoc [sampleReadRow, sampleStatRow]))) \<and>
   list_all isObject (rowList (sampleDoc [sampleReadRow, sampleStatRow])) \<and>
   length (rowList (sampleDoc [sampleReadRow, sampleStatRow])) = 2 \<and>
   exportTrace (sampleDoc [sampleReadRow, sampleStatRow]) = Inr [sampleReadEvent, sampleStatEvent] \<and>
   readable (Obj [] None []) Map.empty \<and>
   child (Obj [] None []) ''syscall'' = None \<and>
   rowEvent (Obj [] None []) Map.empty =
     Inr \<lparr>timestamp = [], duration = None, syscall = ''unknown'', signature = ''unknown'',
          pid = None, tid = None, process = None, result = None, errno = None, args = Some []\<rparr> \<and>
   rowEvent (Obj [] None [(''syscall'', Obj [(''@_id'', ''9'')] None [])]) Map.empty =
     Inr \<lparr>timestamp = [], duration = None, syscall = ''unknown'', signature = ''unknown'',
          pid = None, tid = None, process = None, result = None, errno = None, args = Some []\<rparr> \<and>
   rowEvent (Obj [] None [(''syscall'', Str [])]) Map.empty =
     Inr \<lparr>timestamp = [], duration = None, syscall = [], signature = [],
          pid = None, tid = None, process = None, result = None, errno = None, args = Some []\<rparr> \<and>
   exportTrace (sampleDoc [sampleReadRow, Obj [] None []]) =
     Inr [sampleReadEvent,
          \<lparr>timestamp = [], duration = None, syscall = ''unknown'', signature = ''unknown'',
           pid = None, tid = None, process = None, result = None, errno = None, args = Some []\<rparr>]"
  using exportTrace_one_event_per_object_row [of "sampleDoc [sampleReadRow, sampleStatRow]"]
    exportTrace_one_event_per_object_row [of "sampleDoc [sampleReadRow, Obj [] None []]"]
  by (simp add: sampleDoc_def sampleReadRow_def sampleStatRow_def sampleReadEvent_def
      sampleStatEvent_def export_eval num_eval)

text \<open>
  C1 as stated fails: the document with the rows \<open>sampleReadRow\<close>, an empty row and
  \<open>sampleStatRow\<close> has three rows and two events.
\<close>

theorem exportTrace_drops_empty_row:
  "length (rowList (sampleDoc [sampleReadRow, Str [], sampleStatRow])) = 3 \<and>
   exportTrace (sampleDoc [sampleReadRow, Str [], sampleStatRow]) =
     Inr [sampleReadEvent, sampleStatEvent] \<and>
   length [sampleReadEvent, sampleStatEvent] = 2"
  by (simp add: exportTrace_sample) (simp add: sampleDoc_def rowList_def asList_def)

text \<open>
  Outside the readable documents the loop body raises: a syscall element whose text
  the parser has converted to a number, \<^verbatim>\<open><syscall id="9">123</syscall>\<close>, gives the
  number 123 as the name, the call of \<^verbatim>\<open>replace\<close> on it raises a \<^verbatim>\<open>TypeError\<close>, and
  the run ends without an event or a line; so does a thread id converted to a number.
  (A number that is the whole element, without attributes, is not returned by
  \<^verbatim>\<open>getText\<close>, and the row is read as if the element had no text.)
\<close>

lemma exportTrace_numeric_text:
  "exportTrace
     (sampleDoc [sampleReadRow,
                 Obj [] None [(''syscall'', Obj [(''@_id'', ''9'')] (Some (PNum ''123'')) [])]]) =
     Inl TypeError \<and>
   renderTrace fm isTTY
     (sampleDoc [sampleReadRow,
                 Obj [] None [(''syscall'', Obj [(''@_id'', ''9'')] (Some (PNum ''123'')) [])]]) color =
     ([], Some TypeError) \<and>
   rowEvent
     (Obj [] None
        [(''syscall'', Obj [(''@_fmt'', ''BSC_read'')] None []),
         (''thread'', Obj [] None [(''tid'', Obj [(''@_id'', ''3'')] (Some (PNum ''259'')) [])])])
     Map.empty = Inl TypeError"
  by (simp add: renderTrace_def sampleDoc_def sampleReadRow_def export_eval num_eval)

section \<open>The normalization convention\<close>

text \<open>
  C8, as the code has it. The name of every event is the raw name of its row with a
  leading \<^verbatim>\<open>BSC_\<close> or \<^verbatim>\<open>MSC_\<close> removed (the class letter B or M, the letters SC and an
  underscore), once; a name that starts with neither is unchanged; and every readable
  row gives such an event. The formatter looks up, decodes and prints the name of the
  event.
\<close>

theorem stripClassPrefix_convention:
  "(rowEvent row m = Inr e \<longrightarrow>
      (\<exists>name. rawSyscall row m = PStr name \<and> syscall e = stripClassPrefix name)) \<and>
   (readable row m \<longrightarrow>
      (\<exists>e name. rowEvent row m = Inr e \<and> rawSyscall row m = PStr name \<and>
                syscall e = stripClassPrefix name)) \<and>
   stripClassPrefix (''BSC_'' @ s) = s \<and>
   stripClassPrefix (''MSC_'' @ s) = s \<and>
   (\<not> startsWith s ''BSC_'' \<and> \<not> startsWith s ''MSC_'' \<longrightarrow> stripClassPrefix s = s)"
proof -
  have a: "rowEvent row m = Inr e \<Longrightarrow>
      \<exists>name. rawSyscall row m = PStr name \<and> syscall e = stripClassPrefix name"
    by (rule rowEvent_name)
  have b: "readable row m \<Longrightarrow>
      \<exists>e name. rowEvent row m = Inr e \<and> rawSyscall row m = PStr name \<and>
               syscall e = stripClassPrefix name"
    using rowEvent_readable [of row m] rowEvent_name [of row m] by blast
  have c: "stripClassPrefix (''BSC_'' @ s) = s \<and> stripClassPrefix (''MSC_'' @ s) = s \<and>
      (\<not> startsWith s ''BSC_'' \<and> \<not> startsWith s ''MSC_'' \<longrightarrow> stripClassPrefix s = s)"
    by (simp add: stripClassPrefix_def)
  from a b c show ?thesis by blast
qed

theorem stripClassPrefix_convention_witness:
  "rowEvent sampleReadRow Map.empty = Inr sampleReadEvent \<and>
   readable sampleReadRow Map.empty \<and>
   rawSyscall sampleReadRow Map.empty = PStr ''BSC_read'' \<and>
   syscall sampleReadEvent = ''read'' \<and>
   stripClassPrefix (''MSC_'' @ ''mach_msg_trap'') = ''mach_msg_trap'' \<and>
   \<not> startsWith ''BSC'' ''BSC_'' \<and> \<not> startsWith ''BSC'' ''MSC_'' \<and>
   stripClassPrefix ''BSC'' = ''BSC'' \<and>
   stripClassPrefix ''BSC_BSC_open'' = ''BSC_open''"
  using stripClassPrefix_convention [of sampleReadRow Map.empty sampleReadEvent "''mach_msg_trap''"]
    stripClassPrefix_convention [of sampleReadRow Map.empty sampleReadEvent "''BSC''"]
  by (simp add: sampleReadRow_def sampleReadEvent_def export_eval num_eval)

text \<open>
  C8 as stated fails both ways: \<^verbatim>\<open>XY_open\<close> starts with two uppercase letters and an
  underscore and is kept whole, and \<^verbatim>\<open>BSC_open\<close> does not and loses its prefix.
\<close>

theorem two_letter_marker_not_stripped:
  "hasTwoLetterMarker ''XY_open'' \<and>
   map_sum id syscall
     (rowEvent (Obj [] None [(''syscall'', Obj [(''@_fmt'', ''XY_open'')] None [])]) Map.empty) =
     Inr ''XY_open'' \<and>
   \<not> hasTwoLetterMarker ''BSC_open'' \<and>
   map_sum id syscall
     (rowEvent (Obj [] None [(''syscall'', Obj [(''@_fmt'', ''BSC_open'')] None [])]) Map.empty) =
     Inr ''open''"
  by (simp add: export_eval isUpper_def Let_def)

section \<open>Determinism\<close>

lemma formatEvent_color_set:
  "formatEvent fm isTTY event (Some color) = formatEvent fm isTTY' event (Some color)"
  by (simp add: formatEvent_def paletteFor_def)

lemma formatEvent_color_unset:
  "formatEvent fm isTTY event None = formatEvent fm isTTY' event (Some isTTY)"
  by (simp add: formatEvent_def paletteFor_def)

lemma writeEvents_color_set:
  "writeEvents fm isTTY color events out = writeEvents fm isTTY' color events out"
proof (induction events arbitrary: out)
  case Nil
  show ?case by simp
next
  case (Cons event events)
  show ?case
    by (cases "formatEvent fm isTTY' event (Some color)")
      (simp_all add: formatEvent_color_set [of fm isTTY event color isTTY'] Cons)
qed

text \<open>
  C9. Extraction is a function of the document, and the pipeline is a function of the
  document, the flag formatters of \<^verbatim>\<open>./syscalls\<close> and the colour option: with the
  option set, as the pipeline always sets it, the terminal state of the process has no
  part in the result (it decides the palette only where the option is left out,
  \<open>formatEvent_color_unset\<close>). Equal documents and equal colour flags give equal event
  sequences and equal written lines.
\<close>

theorem pipeline_deterministic:
  "data1 = data2 \<Longrightarrow> color1 = color2 \<Longrightarrow>
   exportTrace data1 = exportTrace data2 \<and>
   renderTrace fm isTTY1 data1 color1 = renderTrace fm isTTY2 data2 color2"
  by (simp add: renderTrace_def writeEvents_color_set [of fm isTTY1 color2 _ _ isTTY2]
      split: sum.splits)

theorem pipeline_deterministic_witness:
  "\<forall>fm. renderTrace fm True (sampleDoc [sampleReadRow, Str [], sampleStatRow]) False =
          renderTrace fm False (sampleDoc [sampleReadRow, Str [], sampleStatRow]) False \<and>
        renderTrace fm True (sampleDoc [sampleReadRow, Str [], sampleStatRow]) False =
          ([''01.234   12.50us cat/1234         read(<fd:3>, 0x16b473548, 4096) = 2293'' @ [CHR 0x0A],
            ''01.300           cat/1234         stat64(0x16b473548, 0x16b473000) = -1 ENOENT no such file or directory'' @ [CHR 0x0A]],
           None)"
proof
  fix fm
  show "renderTrace fm True (sampleDoc [sampleReadRow, Str [], sampleStatRow]) False =
          renderTrace fm False (sampleDoc [sampleReadRow, Str [], sampleStatRow]) False \<and>
        renderTrace fm True (sampleDoc [sampleReadRow, Str [], sampleStatRow]) False =
          ([''01.234   12.50us cat/1234         read(<fd:3>, 0x16b473548, 4096) = 2293'' @ [CHR 0x0A],
            ''01.300           cat/1234         stat64(0x16b473548, 0x16b473000) = -1 ENOENT no such file or directory'' @ [CHR 0x0A]],
           None)"
    using pipeline_deterministic [of "sampleDoc [sampleReadRow, Str [], sampleStatRow]"
        "sampleDoc [sampleReadRow, Str [], sampleStatRow]" False False fm True False]
    by (simp add: renderTrace_def exportTrace_sample formatEvent_sampleRead formatEvent_sampleStat)
qed

section \<open>Numbers as text\<close>
















lemma numberToString_small: "n < 2 ^ 53 \<Longrightarrow> numberToString (lit n) = decimal n"
  by (simp add: magnitudeString_def decimal_0)


lemma numLess_NaN [simp]: "numLess a NaN = False"
  by (cases a) simp_all

lemma withSign_not_NaN [simp]: "withSign neg v \<noteq> NaN"
  by (simp add: withSign_def split: option.splits)

section \<open>Return values\<close>

lemma sets_disjoint:
  "set fdReturnSyscalls \<inter> set addrReturnSyscalls = {} \<and>
   set fdReturnSyscalls \<inter> set byteCountReturnSyscalls = {} \<and>
   set addrReturnSyscalls \<inter> set byteCountReturnSyscalls = {}"
  by (simp add: sets_eval)

text \<open>
  C2. With the error flag off and a parsed value that is neither negative nor above
  \<^verbatim>\<open>0xFFFFFFFF00000000\<close>: a name of the descriptor set gives the tagged descriptor of
  the parsed value; a name of the address set gives the raw string; a name of the
  byte-count set gives the parsed value as a number; a name of none of the three sets
  gives \<^verbatim>\<open>0\<close> for zero, the raw string above 65535, and the number otherwise. The three
  sets are disjoint (\<open>sets_disjoint\<close>), so the order of the tests does not matter. The
  number is printed as \<^verbatim>\<open>String\<close> prints it, which below \<open>2 ^ 53\<close> is its decimal
  numeral.
\<close>

theorem formatResult_classification:
  assumes "\<not> numLess (parseHex r) (lit 0)"
    and "\<not> numGreater (parseHex r) (lit 0xFFFFFFFF00000000)"
  shows "(sc \<in> set fdReturnSyscalls \<longrightarrow>
            formatResult sc r False = ''<fd:'' @ numberToString (parseHex r) @ ''>'') \<and>
         (sc \<in> set addrReturnSyscalls \<longrightarrow> formatResult sc r False = r) \<and>
         (sc \<in> set byteCountReturnSyscalls \<longrightarrow>
            formatResult sc r False = numberToString (parseHex r)) \<and>
         (sc \<notin> set fdReturnSyscalls \<and> sc \<notin> set addrReturnSyscalls \<and>
          sc \<notin> set byteCountReturnSyscalls \<longrightarrow>
            (numEq (parseHex r) (lit 0) \<longrightarrow> formatResult sc r False = ''0'') \<and>
            (numGreater (parseHex r) (lit 0xFFFF) \<longrightarrow> formatResult sc r False = r) \<and>
            (\<not> numEq (parseHex r) (lit 0) \<and> \<not> numGreater (parseHex r) (lit 0xFFFF) \<longrightarrow>
               formatResult sc r False = numberToString (parseHex r))) \<and>
         (\<forall>n. parseHex r = lit n \<and> n < 2 ^ 53 \<longrightarrow> numberToString (parseHex r) = decimal n)"
proof -
  have fd_case: "sc \<in> set fdReturnSyscalls \<Longrightarrow>
      formatResult sc r False = ''<fd:'' @ numberToString (parseHex r) @ ''>''"
    using assms by (simp add: formatResult_def Let_def)
  have addr_case: "sc \<in> set addrReturnSyscalls \<Longrightarrow> formatResult sc r False = r"
    using assms sets_disjoint by (auto simp: formatResult_def Let_def)
  have byte_case: "sc \<in> set byteCountReturnSyscalls \<Longrightarrow>
      formatResult sc r False = numberToString (parseHex r)"
    using assms sets_disjoint by (auto simp: formatResult_def Let_def)
  have other_case: "sc \<notin> set fdReturnSyscalls \<Longrightarrow> sc \<notin> set addrReturnSyscalls \<Longrightarrow>
      sc \<notin> set byteCountReturnSyscalls \<Longrightarrow>
      formatResult sc r False =
        (if numEq (parseHex r) (lit 0) then ''0''
         else if numGreater (parseHex r) (lit 0xFFFF) then r
         else numberToString (parseHex r))"
    using assms by (simp add: formatResult_def Let_def)
  have zero_small: "numEq (parseHex r) (lit 0) \<Longrightarrow> \<not> numGreater (parseHex r) (lit 0xFFFF)"
    by (cases "parseHex r") (auto simp: numGreater_def)
  have dec: "numberToString (parseHex r) = decimal n" if "parseHex r = lit n" "n < 2 ^ 53" for n
    unfolding that(1) using that(2) by (rule numberToString_small)
  have other_zero: "sc \<notin> set fdReturnSyscalls \<and> sc \<notin> set addrReturnSyscalls \<and>
      sc \<notin> set byteCountReturnSyscalls \<longrightarrow>
        (numEq (parseHex r) (lit 0) \<longrightarrow> formatResult sc r False = ''0'') \<and>
        (numGreater (parseHex r) (lit 0xFFFF) \<longrightarrow> formatResult sc r False = r) \<and>
        (\<not> numEq (parseHex r) (lit 0) \<and> \<not> numGreater (parseHex r) (lit 0xFFFF) \<longrightarrow>
           formatResult sc r False = numberToString (parseHex r))"
    using other_case zero_small by auto
  have dec_all: "\<forall>n. parseHex r = lit n \<and> n < 2 ^ 53 \<longrightarrow>
      numberToString (parseHex r) = decimal n"
    using dec by blast
  from fd_case addr_case byte_case other_zero dec_all show ?thesis by blast
qed

theorem formatResult_classification_witness:
  "\<not> numLess (parseHex ''0x3'') (lit 0) \<and>
   \<not> numGreater (parseHex ''0x3'') (lit 0xFFFFFFFF00000000) \<and>
   ''open'' \<in> set fdReturnSyscalls \<and> formatResult ''open'' ''0x3'' False = ''<fd:3>'' \<and>
   ''read'' \<in> set byteCountReturnSyscalls \<and> formatResult ''read'' ''0x8f5'' False = ''2293'' \<and>
   ''mmap'' \<in> set addrReturnSyscalls \<and> formatResult ''mmap'' ''0x8f5'' False = ''0x8f5'' \<and>
   formatResult ''getpid'' ''0x0'' False = ''0'' \<and>
   formatResult ''getpid'' ''0x10000'' False = ''0x10000'' \<and>
   formatResult ''getpid'' ''0x8f5'' False = ''2293''"
  using formatResult_classification [of "''0x3''" "''open''"]
    formatResult_classification [of "''0x8f5''" "''read''"]
    formatResult_classification [of "''0x8f5''" "''mmap''"]
    formatResult_classification [of "''0x0''" "''getpid''"]
    formatResult_classification [of "''0x10000''" "''getpid''"]
    formatResult_classification [of "''0x8f5''" "''getpid''"]
  by (simp add: num_eval sets_eval)







section \<open>Numeric parsing\<close>

lemma isRadixDigit_plain:
  "isRadixDigit R x \<Longrightarrow> \<not> isWhiteSpace x \<and> x \<noteq> CHR ''-'' \<and> x \<noteq> CHR ''+''"
  by (auto simp: isRadixDigit_def digitVal_def isWhiteSpace_def Let_def
      split: option.splits if_splits)

lemma isRadixDigit_10: "isRadixDigit 10 x = isDigit x"
  by (auto simp: isRadixDigit_def digitVal_def isDigit_def Let_def split: option.splits if_splits)

lemma takeWhile_run:
  "list_all P xs \<Longrightarrow> ys = [] \<or> \<not> P (hd ys) \<Longrightarrow> takeWhile P (xs @ ys) = xs"
  by (cases ys) (auto simp: list_all_iff takeWhile_append2)

lemma numeralRun_decimal:
  assumes "ds \<noteq> []" and "list_all (isRadixDigit 10) ds"
    and "rest = [] \<or> \<not> isRadixDigit 10 (hd rest)"
  shows "numeralRun (ds @ rest) 10 = ds \<and> \<not> startsWith (dropWhile isWhiteSpace (ds @ rest)) ''-''"
proof -
  obtain d ds' where ds: "ds = d # ds'" using assms(1) by (cases ds) auto
  with assms(2) have d: "isRadixDigit 10 d" by simp
  from isRadixDigit_plain [OF d] ds
  have a: "dropWhile isWhiteSpace (ds @ rest) = ds @ rest"
    and b: "stripSign (ds @ rest) = ds @ rest"
    and c: "\<not> startsWith (ds @ rest) ''-''"
    by (simp_all add: stripSign_def)
  from a b c show ?thesis
    using takeWhile_run [OF assms(2) assms(3)] by (simp add: numeralRun_def stripRadixPrefix_def)
qed

lemma numeralRun_hex:
  assumes "list_all (isRadixDigit 16) hs" and "rest = [] \<or> \<not> isRadixDigit 16 (hd rest)"
  shows "numeralRun (''0x'' @ hs @ rest) 16 = hs"
  using takeWhile_run [OF assms]
  by (simp add: numeralRun_def stripRadixPrefix_def stripSign_def isWhiteSpace_def)

lemma parseHex_NaN_iff:
  "parseHex s = NaN \<longleftrightarrow> numeralRun s (if startsWith s ''0x'' then 16 else 10) = []"
  by (simp add: parseHex_def parseInt_def Let_def)

lemma parseHex_above_mantissa:
  "parseHex ''0xffffffff00000401'' = lit 18446744069414584320 \<and>
   toNumber False (numeralValue 16 ''ffffffff00000401'') = lit 18446744069414586368"
  by (simp add: num_eval)

lemma fd_NaN: "s \<noteq> [] \<Longrightarrow> parseHex s = NaN \<Longrightarrow> fd (Some s) = ''<fd:NaN>''"
  by (simp add: fd_def Let_def numGreater_def)

lemma intArg_NaN: "s \<noteq> [] \<Longrightarrow> parseHex s = NaN \<Longrightarrow> intArg (Some s) = s"
  by (simp add: intArg_def Let_def numGreaterEq_def numLessEq_def)

text \<open>
  C10. A string that starts with \<^verbatim>\<open>0x\<close> is read as hexadecimal and any other string as
  decimal; the value is that of the longest run of digits at the start, whatever follows
  the run, so \<^verbatim>\<open>12abc\<close> is 12 and is printed as a number. A decimal run is read as the
  double nearest to its value. A hexadecimal run is read as the engine reads the run
  alone, which is its exact value below \<open>2 ^ 53\<close> (above, the digits are summed in
  doubles, and \<open>parseHex_above_mantissa\<close> shows a run that is not read as the nearest
  double). A string is not a number exactly when the run is empty, and then the
  descriptor helper prints \<^verbatim>\<open><fd:NaN>\<close>, not the raw string (the integer helper prints
  the raw string).
\<close>

theorem parseHex_longest_prefix:
  "(ds \<noteq> [] \<and> list_all isDigit ds \<and> (rest = [] \<or> \<not> isDigit (hd rest)) \<and>
    \<not> startsWith (ds @ rest) ''0x'' \<longrightarrow>
      parseHex (ds @ rest) = toNumber False (numeralValue 10 ds)) \<and>
   (hs \<noteq> [] \<and> list_all (isRadixDigit 16) hs \<and> (rest = [] \<or> \<not> isRadixDigit 16 (hd rest)) \<longrightarrow>
      parseHex (''0x'' @ hs @ rest) = withSign False (radixValue 16 hs) \<and>
      parseHex (''0x'' @ hs @ rest) = parseHex (''0x'' @ hs) \<and>
      (numeralValue 16 hs < 2 ^ 53 \<longrightarrow> parseHex (''0x'' @ hs @ rest) = lit (numeralValue 16 hs))) \<and>
   (parseHex s = NaN \<longleftrightarrow> numeralRun s (if startsWith s ''0x'' then 16 else 10) = []) \<and>
   (s \<noteq> [] \<and> parseHex s = NaN \<longrightarrow> fd (Some s) = ''<fd:NaN>'' \<and> intArg (Some s) = s) \<and>
   parseHex ''12abc'' = lit 12 \<and> intArg (Some ''12abc'') = ''12'' \<and>
   fd (Some ''12abc'') = ''<fd:12>''"
proof -
  have dec: "parseHex (ds @ rest) = toNumber False (numeralValue 10 ds)"
    if "ds \<noteq> []" "list_all isDigit ds" "rest = [] \<or> \<not> isDigit (hd rest)"
      "\<not> startsWith (ds @ rest) ''0x''"
  proof -
    from that(2) have "list_all (isRadixDigit 10) ds" by (simp add: isRadixDigit_10 [abs_def])
    from numeralRun_decimal [OF that(1) this] that(3) that(1) that(4) show ?thesis
      by (simp add: parseHex_def parseInt_def toNumber_def radixValue_10 Let_def isRadixDigit_10)
  qed
  have hex: "parseHex (''0x'' @ hs @ rest') = withSign False (radixValue 16 hs)"
    if "hs \<noteq> []" "list_all (isRadixDigit 16) hs" "rest' = [] \<or> \<not> isRadixDigit 16 (hd rest')"
    for rest'
    using numeralRun_hex [OF that(2) that(3)] that(1)
    by (simp add: parseHex_def parseInt_def Let_def isWhiteSpace_def)
  have hex_alone: "parseHex (''0x'' @ hs @ rest) = parseHex (''0x'' @ hs)"
    if "hs \<noteq> []" "list_all (isRadixDigit 16) hs" "rest = [] \<or> \<not> isRadixDigit 16 (hd rest)"
    using hex [OF that] hex [OF that(1) that(2), of "[]"] by simp
  have hex_small: "parseHex (''0x'' @ hs @ rest) = lit (numeralValue 16 hs)"
    if "hs \<noteq> []" "list_all (isRadixDigit 16) hs" "rest = [] \<or> \<not> isRadixDigit 16 (hd rest)"
      "numeralValue 16 hs < 2 ^ 53"
    using hex [OF that(1-3)] radixValue_small [OF _ that(4)] by (simp add: withSign_def)
  have nan: "parseHex s = NaN \<longleftrightarrow> numeralRun s (if startsWith s ''0x'' then 16 else 10) = []"
    by (rule parseHex_NaN_iff)
  have ex: "parseHex ''12abc'' = lit 12 \<and> intArg (Some ''12abc'') = ''12'' \<and>
      fd (Some ''12abc'') = ''<fd:12>''"
    by (simp add: num_eval)
  from dec hex [of rest] hex_alone hex_small nan fd_NaN [of s] intArg_NaN [of s] ex
  show ?thesis by blast
qed

theorem parseHex_longest_prefix_witness:
  "list_all isDigit ''2293'' \<and> \<not> isDigit (hd ''abc'') \<and> \<not> startsWith (''2293'' @ ''abc'') ''0x'' \<and>
   parseHex (''2293'' @ ''abc'') = lit 2293 \<and>
   list_all (isRadixDigit 16) ''8f5'' \<and> \<not> isRadixDigit 16 (hd ''zz'') \<and>
   numeralValue 16 ''8f5'' = 2293 \<and>
   parseHex (''0x'' @ ''8f5'' @ ''zz'') = lit 2293 \<and>
   parseHex (''0x'' @ ''8f5'' @ ''zz'') = parseHex (''0x'' @ ''8f5'') \<and>
   parseHex ''abc'' = NaN \<and> numeralRun ''abc'' 10 = [] \<and>
   fd (Some ''abc'') = ''<fd:NaN>'' \<and> intArg (Some ''abc'') = ''abc'' \<and>
   parseHex ''0xzz'' = NaN \<and> parseHex ''0X10'' = lit 0"
  using parseHex_longest_prefix [of "''2293''" "''abc''" "''8f5''" "''abc''"]
    parseHex_longest_prefix [of "''2293''" "''zz''" "''8f5''" "''abc''"]
  by (simp add: isDigit_def) (simp add: num_eval)

section \<open>Argument decoding\<close>

lemma decode_registered:
  "map_of decoders name = Some ps \<Longrightarrow> decode fm name argv = Inr (Text (runDecoder fm ps argv))"
  by (simp add: decode_def)

lemma decode_unregistered:
  "map_of decoders name = None \<Longrightarrow> name \<notin> set objectPrototypeKeys \<Longrightarrow>
   decode fm name argv = Inr (Text (defaultDecoder argv))"
  by (auto simp: decode_def objectPrototypeKeys_def)

lemma decode_frobnicate: "decode fm ''frobnicate'' [''a'', ''b''] = Inr (Text ''(a, b)'')"
  by (simp add: decode_def decoders_def objectPrototypeKeys_def defaultDecoder_def)

text \<open>
  C3 fails on the code. The table is a plain object, and a syscall name that is a
  property of \<^verbatim>\<open>Object.prototype\<close> finds the inherited member instead of the default
  decoder: for \<^verbatim>\<open>valueOf\<close> the call raises a \<^verbatim>\<open>TypeError\<close>, for \<^verbatim>\<open>constructor\<close> the
  call returns the argument array and the line cannot be built, and for \<^verbatim>\<open>toString\<close>
  the decoded arguments are \<^verbatim>\<open>[object Undefined]\<close>, not a parenthesized list. A
  document with a row named \<^verbatim>\<open>BSC_valueOf\<close> between two others has its first line
  written, and the run ends there with the exception.
\<close>

theorem decode_inherited_property:
  "decode fm ''valueOf'' [''a'', ''b''] = Inl TypeError \<and>
   formatEvent fm isTTY (sampleReadEvent\<lparr>syscall := ''valueOf''\<rparr>) color = Inl TypeError \<and>
   decode fm ''constructor'' [''a'', ''b''] = Inr (ArgArray [''a'', ''b'']) \<and>
   formatEvent fm isTTY (sampleReadEvent\<lparr>syscall := ''constructor''\<rparr>) color = Inl TypeError \<and>
   decode fm ''toString'' [''a'', ''b''] = Inr (Text ''[object Undefined]'') \<and>
   renderTrace fm isTTY
     (sampleDoc [sampleReadRow, Obj [] None [(''syscall'', Obj [(''@_fmt'', ''BSC_valueOf'')] None [])],
                 sampleStatRow]) False =
     ([''01.234   12.50us cat/1234         read(<fd:3>, 0x16b473548, 4096) = 2293'' @ [CHR 0x0A]],
      Some TypeError)"
proof -
  have rows: "exportTrace
     (sampleDoc [sampleReadRow, Obj [] None [(''syscall'', Obj [(''@_fmt'', ''BSC_valueOf'')] None [])],
                 sampleStatRow]) =
     Inr [sampleReadEvent,
          \<lparr>timestamp = [], duration = None, syscall = ''valueOf'', signature = ''valueOf'',
           pid = None, tid = None, process = None, result = None, errno = None, args = Some []\<rparr>,
          sampleStatEvent]"
    by (simp add: sampleDoc_def sampleReadRow_def sampleStatRow_def sampleReadEvent_def
        sampleStatEvent_def export_eval num_eval)
  have dec: "decode fm ''valueOf'' argv = Inl TypeError" for argv
    by (simp add: decode_def decoders_def objectPrototypeKeys_def)
  show ?thesis
    by (simp add: renderTrace_def rows formatEvent_sampleRead)
      (simp add: dec decode_def decoders_def objectPrototypeKeys_def formatEvent_def
        sampleReadEvent_def Let_def)
qed

lemma parseHex_zero: "parseHex ''0'' = lit 0"
  by (simp add: num_eval)

lemma helpers_missing: "fd None = ''?''" "intArg None = ''?''" "orZero None = ''0''"
  by (simp_all add: fd_def intArg_def orZero_def)

lemma nthOpt_missing: "length argv \<le> i \<Longrightarrow> nthOpt argv i = None"
  by (simp add: nthOpt_def)

lemma nthOpt_present: "i < length argv \<Longrightarrow> nthOpt argv i = Some (argv ! i)"
  by (simp add: nthOpt_def)

text \<open>
  C4, as the code has it. A registered decoder never fails and returns the
  parenthesized list of its renderings; where the argument is missing, a position
  rendered by the descriptor helper or the integer helper is \<^verbatim>\<open>?\<close>, a position with the
  default \<^verbatim>\<open>|| "0"\<close> is \<^verbatim>\<open>0\<close>, and a flag or command position is what the flag formatter
  makes of 0; and a string that does not parse is printed unchanged by the integer
  helper.
\<close>

theorem decoders_missing_arguments:
  "map_of decoders name = Some ps \<Longrightarrow>
   decode fm name argv = Inr (Text (''('' @ join '', '' (map (renderPiece fm argv) ps) @ '')'')) \<and>
   (\<forall>p \<in> set ps. \<forall>i. length argv \<le> i \<longrightarrow>
      (p = FdArg i \<or> p = IntArg i \<or> p = DirFdArg i \<longrightarrow> renderPiece fm argv p = ''?'') \<and>
      (p = OrZeroArg i \<longrightarrow> renderPiece fm argv p = ''0'') \<and>
      (p = OpenFlagsArg i \<longrightarrow> renderPiece fm argv p = formatOpenFlags fm (lit 0)) \<and>
      (p = ProtFlagsArg i \<longrightarrow> renderPiece fm argv p = formatProtFlags fm (lit 0)) \<and>
      (p = MapFlagsArg i \<longrightarrow> renderPiece fm argv p = formatMapFlags fm (lit 0)) \<and>
      (p = FcntlCmdArg i \<longrightarrow> renderPiece fm argv p = formatFcntlCmd fm (lit 0))) \<and>
   (\<forall>p \<in> set ps. \<forall>i. i < length argv \<and> argv ! i \<noteq> [] \<and> parseHex (argv ! i) = NaN \<and> p = IntArg i \<longrightarrow>
      renderPiece fm argv p = argv ! i)"
  by (auto simp: decode_registered runDecoder_def nthOpt_missing nthOpt_present helpers_missing
      parseHex_zero intArg_NaN)

theorem decoders_missing_arguments_witness:
  "\<forall>fm. map_of decoders ''pread'' = Some [FdArg 0, RawArg 1, IntArg 2, IntArg 3] \<and>
        decode fm ''pread'' [''0x3'', ''0x16b473548'', ''zz''] =
          Inr (Text ''(<fd:3>, 0x16b473548, zz, ?)'') \<and>
        map_of decoders ''ioctl'' = Some [FdArg 0, RawArg 1, OrZeroArg 2] \<and>
        decode fm ''ioctl'' [] = Inr (Text ''(?, undefined, 0)'') \<and>
        map_of decoders ''fork'' = Some [] \<and>
        decode fm ''fork'' [''0x1''] = Inr (Text ''()'')"
proof
  fix fm
  show "map_of decoders ''pread'' = Some [FdArg 0, RawArg 1, IntArg 2, IntArg 3] \<and>
        decode fm ''pread'' [''0x3'', ''0x16b473548'', ''zz''] =
          Inr (Text ''(<fd:3>, 0x16b473548, zz, ?)'') \<and>
        map_of decoders ''ioctl'' = Some [FdArg 0, RawArg 1, OrZeroArg 2] \<and>
        decode fm ''ioctl'' [] = Inr (Text ''(?, undefined, 0)'') \<and>
        map_of decoders ''fork'' = Some [] \<and>
        decode fm ''fork'' [''0x1''] = Inr (Text ''()'')"
    using decoders_missing_arguments [of "''pread''" "[FdArg 0, RawArg 1, IntArg 2, IntArg 3]" fm
        "[''0x3'', ''0x16b473548'', ''zz'']"]
      decoders_missing_arguments [of "''ioctl''" "[FdArg 0, RawArg 1, OrZeroArg 2]" fm "[]"]
      decoders_missing_arguments [of "''fork''" "[]" fm "[''0x1'']"]
    by (simp add: decoders_def) (simp add: nthOpt_def template_def orZero_def num_eval)
qed

text \<open>
  C4 as stated fails where the code sets a default: the missing status of \<^verbatim>\<open>exit\<close> is
  printed as \<^verbatim>\<open>0\<close>, not as \<^verbatim>\<open>?\<close>.
\<close>

theorem exit_without_argument:
  "\<forall>fm. decode fm ''exit'' [] = Inr (Text ''(0)'')"
  by (simp add: decode_def decoders_def runDecoder_def nthOpt_def orZero_def)


section \<open>Real errors\<close>

lemma trimEnd_keep: "ys \<noteq> [] \<Longrightarrow> \<not> isWhiteSpace (last ys) \<Longrightarrow> trimEnd (xs @ ys) = xs @ ys"
proof -
  assume ne: "ys \<noteq> []" and nw: "\<not> isWhiteSpace (last ys)"
  from ne obtain b l where ys: "ys = b @ [l]" by (metis append_butlast_last_id)
  with nw have "\<not> isWhiteSpace l" by simp
  with ys show ?thesis by (simp add: trimEnd_def)
qed

lemma paletteFor_cases: "paletteFor isTTY color = ansi \<or> paletteFor isTTY color = plain"
  by (simp add: paletteFor_def Let_def)

lemma isRealError_iff:
  "isRealError e = Inr True \<longleftrightarrow>
     (\<exists>l. errno e = Some (PStr l) \<and> l \<noteq> [] \<and> \<not> includesStr l ''success'' \<and>
          \<not> includesStr l ''unknown error code'' \<and> \<not> includesStr l ''reachable'' \<and>
          \<not> includesStr l ''Operation not supported'')"
proof (cases "errno e")
  case None
  then show ?thesis by (simp add: isRealError_def)
next
  case (Some p)
  then show ?thesis by (cases p) (auto simp: isRealError_def)
qed

lemma isRealError_string:
  "errno e = None \<or> (\<exists>l. errno e = Some (PStr l)) \<Longrightarrow> \<exists>b. isRealError e = Inr b"
  by (auto simp: isRealError_def)

lemma isRealError_success: "errno e = Some (PStr ''success'') \<Longrightarrow> isRealError e = Inr False"
  by (simp add: isRealError_def)

lemma isRealError_ENOENT:
  "errno e = Some (PStr ''ENOENT no such file or directory'') \<Longrightarrow> isRealError e = Inr True"
  by (simp add: isRealError_def)

lemma resultPart_ENOENT:
  assumes "errno e = Some (PStr ''ENOENT no such file or directory'')"
    and "result e = Some r" and "r \<noteq> []"
  shows "resultPart col e True =
           red col @ ''= '' @ formatResult (syscall e) r True @
           '' ENOENT no such file or directory'' @ reset col"
  using assms by (simp add: resultPart_def Let_def)

lemma resultPart_ENOENT_last:
  assumes "errno e = Some (PStr ''ENOENT no such file or directory'')"
    and "result e = Some r" and "r \<noteq> []" and "col = ansi \<or> col = plain"
  shows "resultPart col e True \<noteq> [] \<and> \<not> isWhiteSpace (last (resultPart col e True))"
  using assms(4) unfolding resultPart_ENOENT [OF assms(1-3)]
  by (auto simp: ansi_def plain_def isWhiteSpace_def)

lemma formatEvent_line:
  assumes "formatEvent fm isTTY e color = Inr line" and "isRealError e = Inr real"
  shows "\<exists>before decodedArgs.
           line = trimEnd ((before @
             (if real
              then bold (paletteFor isTTY color) @ red (paletteFor isTTY color) @ syscall e @
                   reset (paletteFor isTTY color)
              else bold (paletteFor isTTY color) @ syscall e @ reset (paletteFor isTTY color)) @
             decodedArgs @ '' '') @ resultPart (paletteFor isTTY color) e real)"
proof (cases "decode fm (syscall e) (case args e of None \<Rightarrow> [] | Some xs \<Rightarrow> xs)")
  case (Inl err)
  with assms show ?thesis by (simp add: formatEvent_def Let_def)
next
  case (Inr d)
  show ?thesis
  proof (cases d)
    case (ArgArray xs)
    with Inr assms show ?thesis by (simp add: formatEvent_def Let_def)
  next
    case (Text decoded)
    with Inr assms have "line = trimEnd
       ((gray (paletteFor isTTY color) @ pad (compactTimestamp (timestamp e)) 6 True @
         reset (paletteFor isTTY color) @ '' '' @
         yellow (paletteFor isTTY color) @
         pad (if falsy (duration e) then [] else replaceFirst '' '' [] (the (duration e))) 9 True @
         reset (paletteFor isTTY color) @ '' '' @
         cyan (paletteFor isTTY color) @
         pad (procName e @ ''/'' @ numberToString (pidOrZero e)) 16 False @
         reset (paletteFor isTTY color) @ '' '' @
         (if real
          then bold (paletteFor isTTY color) @ red (paletteFor isTTY color) @ syscall e @
               reset (paletteFor isTTY color)
          else bold (paletteFor isTTY color) @ syscall e @ reset (paletteFor isTTY color)) @
         dimCommas (paletteFor isTTY color)
           (dimClose (paletteFor isTTY color) (dimOpen (paletteFor isTTY color) decoded)) @ '' '') @
        resultPart (paletteFor isTTY color) e real)"
      by (auto simp: formatEvent_def Let_def)
    then show ?thesis
      by (metis append.assoc)
  qed
qed

lemma formatEvent_returns:
  assumes "syscall e \<notin> set objectPrototypeKeys" and "isRealError e = Inr real"
  shows "\<exists>line. formatEvent fm isTTY e color = Inr line"
proof (cases "map_of decoders (syscall e)")
  case None
  with assms show ?thesis
    by (auto simp: formatEvent_def Let_def decode_def objectPrototypeKeys_def)
next
  case (Some ps)
  with assms(2) show ?thesis by (simp add: formatEvent_def Let_def decode_def)
qed

text \<open>
  C7, as the code has it. An event is a real error exactly when its error label is a
  non-empty string that contains none of the four benign phrases, which the code looks
  for as they are written, capital letters included: \<^verbatim>\<open>success\<close>,
  \<^verbatim>\<open>unknown error code\<close>, \<^verbatim>\<open>reachable\<close> and \<^verbatim>\<open>Operation not supported\<close>; the test
  returns for every event without a label or with a string for a label. The label
  \<^verbatim>\<open>success\<close> is never a real error. The label \<^verbatim>\<open>ENOENT no such file or directory\<close>
  always is; the result part of its line is then in the error colour, with the label
  after the formatted result, the formatted result being \<^verbatim>\<open>-1\<close> when the raw result
  parses to zero, to -1 or to a value above \<^verbatim>\<open>0xFFFFFFFF00000000\<close>; every line produced
  for the event ends with that part and has the name in bold and in the error colour;
  and a line is produced for every name that is not a property of \<^verbatim>\<open>Object.prototype\<close>
  (see C3). With the colour option on, the error colour is the escape sequence for red
  and bold the one for bold; with the option off, both are empty.
\<close>

theorem real_error_classification:
  "(isRealError e = Inr True \<longleftrightarrow>
      (\<exists>l. errno e = Some (PStr l) \<and> l \<noteq> [] \<and> \<not> includesStr l ''success'' \<and>
           \<not> includesStr l ''unknown error code'' \<and> \<not> includesStr l ''reachable'' \<and>
           \<not> includesStr l ''Operation not supported'')) \<and>
   (errno e = None \<or> (\<exists>l. errno e = Some (PStr l)) \<longrightarrow> (\<exists>b. isRealError e = Inr b)) \<and>
   (errno e = Some (PStr ''success'') \<longrightarrow> isRealError e = Inr False) \<and>
   (errno e = Some (PStr ''ENOENT no such file or directory'') \<longrightarrow>
      isRealError e = Inr True \<and>
      (\<forall>r. result e = Some r \<and> r \<noteq> [] \<longrightarrow>
         resultPart col e True =
           red col @ ''= '' @ formatResult (syscall e) r True @
           '' ENOENT no such file or directory'' @ reset col \<and>
         (numEq (parseHex r) (lit 0) \<or> numEq (parseHex r) (Fin True 1) \<or>
          numGreater (parseHex r) (lit 0xFFFFFFFF00000000) \<longrightarrow>
            formatResult (syscall e) r True = ''-1'') \<and>
         (\<forall>line. formatEvent fm isTTY e color = Inr line \<longrightarrow>
            (\<exists>before decodedArgs.
               line = before @ bold (paletteFor isTTY color) @ red (paletteFor isTTY color) @
                      syscall e @ reset (paletteFor isTTY color) @ decodedArgs @ '' '' @
                      resultPart (paletteFor isTTY color) e True))) \<and>
      (syscall e \<notin> set objectPrototypeKeys \<longrightarrow> (\<exists>line. formatEvent fm isTTY e color = Inr line))) \<and>
   paletteFor isTTY (Some True) = ansi \<and> paletteFor isTTY (Some False) = plain \<and>
   red ansi = CHR 0x1B # ''[31m'' \<and> bold ansi = CHR 0x1B # ''[1m'' \<and>
   red plain = [] \<and> bold plain = []"
proof -
  have sentinel: "formatResult (syscall e) r True = ''-1''"
    if "numEq (parseHex r) (lit 0) \<or> numEq (parseHex r) (Fin True 1) \<or>
        numGreater (parseHex r) (lit 0xFFFFFFFF00000000)" for r
    using that by (simp add: formatResult_def Let_def)
  have line: "\<exists>before decodedArgs.
        line = before @ bold (paletteFor isTTY color) @ red (paletteFor isTTY color) @
               syscall e @ reset (paletteFor isTTY color) @ decodedArgs @ '' '' @
               resultPart (paletteFor isTTY color) e True"
    if en: "errno e = Some (PStr ''ENOENT no such file or directory'')"
      and r: "result e = Some r" "r \<noteq> []"
      and l: "formatEvent fm isTTY e color = Inr line" for r line
  proof -
    from formatEvent_line [OF l isRealError_ENOENT [OF en]]
    obtain before decodedArgs where
      "line = trimEnd ((before @
          (bold (paletteFor isTTY color) @ red (paletteFor isTTY color) @ syscall e @
           reset (paletteFor isTTY color)) @ decodedArgs @ '' '') @
          resultPart (paletteFor isTTY color) e True)"
      by auto
    moreover have rp: "resultPart (paletteFor isTTY color) e True \<noteq> [] \<and>
        \<not> isWhiteSpace (last (resultPart (paletteFor isTTY color) e True))"
      by (rule resultPart_ENOENT_last [OF en r paletteFor_cases])
    note keep = trimEnd_keep [OF conjunct1 [OF rp] conjunct2 [OF rp]]
    ultimately have "line = (before @
          (bold (paletteFor isTTY color) @ red (paletteFor isTTY color) @ syscall e @
           reset (paletteFor isTTY color)) @ decodedArgs @ '' '') @
          resultPart (paletteFor isTTY color) e True"
      by (simp only: keep)
    then show ?thesis by (simp only: append.assoc) blast
  qed
  have returns: "\<exists>line. formatEvent fm isTTY e color = Inr line"
    if "errno e = Some (PStr ''ENOENT no such file or directory'')"
      and "syscall e \<notin> set objectPrototypeKeys"
    by (rule formatEvent_returns [OF that(2) isRealError_ENOENT [OF that(1)]])
  have pal: "paletteFor isTTY (Some True) = ansi \<and> paletteFor isTTY (Some False) = plain \<and>
      red ansi = CHR 0x1B # ''[31m'' \<and> bold ansi = CHR 0x1B # ''[1m'' \<and>
      red plain = [] \<and> bold plain = []"
    by (simp add: paletteFor_def ansi_def plain_def)
  show ?thesis
    using isRealError_iff [of e] isRealError_string [of e] isRealError_success [of e]
      isRealError_ENOENT [of e] resultPart_ENOENT [of e _ col] sentinel line returns pal
    by blast
qed

theorem real_error_classification_witness:
  "\<forall>fm isTTY.
     errno sampleStatEvent = Some (PStr ''ENOENT no such file or directory'') \<and>
     isRealError sampleStatEvent = Inr True \<and>
     result sampleStatEvent = Some ''0xffffffffffffffff'' \<and>
     numGreater (parseHex ''0xffffffffffffffff'') (lit 0xFFFFFFFF00000000) \<and>
     resultPart ansi sampleStatEvent True =
       CHR 0x1B # ''[31m= -1 ENOENT no such file or directory'' @ CHR 0x1B # ''[0m'' \<and>
     syscall sampleStatEvent \<notin> set objectPrototypeKeys \<and>
     formatEvent fm isTTY sampleStatEvent (Some False) =
       Inr ''01.300           cat/1234         stat64(0x16b473548, 0x16b473000) = -1 ENOENT no such file or directory'' \<and>
     formatEvent fm isTTY sampleStatEvent (Some True) =
       Inr (gray ansi @ ''01.300'' @ reset ansi @ '' '' @
            yellow ansi @ ''         '' @ reset ansi @ '' '' @
            cyan ansi @ ''cat/1234        '' @ reset ansi @ '' '' @
            CHR 0x1B # ''[1m'' @ CHR 0x1B # ''[31mstat64'' @ reset ansi @
            dim ansi @ ''('' @ reset ansi @ ''0x16b473548'' @ dim ansi @ '', '' @ reset ansi @
            ''0x16b473000'' @ dim ansi @ '')'' @ reset ansi @ '' '' @
            CHR 0x1B # ''[31m= -1 ENOENT no such file or directory'' @ CHR 0x1B # ''[0m'') \<and>
     isRealError (sampleStatEvent\<lparr>errno := Some (PStr ''success'')\<rparr>) = Inr False \<and>
     isRealError (sampleStatEvent\<lparr>errno := Some (PStr ''Operation not supported on socket'')\<rparr>) =
       Inr False \<and>
     isRealError sampleReadEvent = Inr False"
proof (intro allI)
  fix fm isTTY
  have colour: "formatEvent fm isTTY sampleStatEvent (Some True) =
       Inr (gray ansi @ ''01.300'' @ reset ansi @ '' '' @
            yellow ansi @ ''         '' @ reset ansi @ '' '' @
            cyan ansi @ ''cat/1234        '' @ reset ansi @ '' '' @
            CHR 0x1B # ''[1m'' @ CHR 0x1B # ''[31mstat64'' @ reset ansi @
            dim ansi @ ''('' @ reset ansi @ ''0x16b473548'' @ dim ansi @ '', '' @ reset ansi @
            ''0x16b473000'' @ dim ansi @ '')'' @ reset ansi @ '' '' @
            CHR 0x1B # ''[31m= -1 ENOENT no such file or directory'' @ CHR 0x1B # ''[0m'')"
    by (simp add: sampleStatEvent_def format_eval num_eval sets_eval)
  show "errno sampleStatEvent = Some (PStr ''ENOENT no such file or directory'') \<and>
     isRealError sampleStatEvent = Inr True \<and>
     result sampleStatEvent = Some ''0xffffffffffffffff'' \<and>
     numGreater (parseHex ''0xffffffffffffffff'') (lit 0xFFFFFFFF00000000) \<and>
     resultPart ansi sampleStatEvent True =
       CHR 0x1B # ''[31m= -1 ENOENT no such file or directory'' @ CHR 0x1B # ''[0m'' \<and>
     syscall sampleStatEvent \<notin> set objectPrototypeKeys \<and>
     formatEvent fm isTTY sampleStatEvent (Some False) =
       Inr ''01.300           cat/1234         stat64(0x16b473548, 0x16b473000) = -1 ENOENT no such file or directory'' \<and>
     formatEvent fm isTTY sampleStatEvent (Some True) =
       Inr (gray ansi @ ''01.300'' @ reset ansi @ '' '' @
            yellow ansi @ ''         '' @ reset ansi @ '' '' @
            cyan ansi @ ''cat/1234        '' @ reset ansi @ '' '' @
            CHR 0x1B # ''[1m'' @ CHR 0x1B # ''[31mstat64'' @ reset ansi @
            dim ansi @ ''('' @ reset ansi @ ''0x16b473548'' @ dim ansi @ '', '' @ reset ansi @
            ''0x16b473000'' @ dim ansi @ '')'' @ reset ansi @ '' '' @
            CHR 0x1B # ''[31m= -1 ENOENT no such file or directory'' @ CHR 0x1B # ''[0m'') \<and>
     isRealError (sampleStatEvent\<lparr>errno := Some (PStr ''success'')\<rparr>) = Inr False \<and>
     isRealError (sampleStatEvent\<lparr>errno := Some (PStr ''Operation not supported on socket'')\<rparr>) =
       Inr False \<and>
     isRealError sampleReadEvent = Inr False"
    using real_error_classification [of sampleStatEvent ansi fm isTTY "Some False"]
      real_error_classification [of "sampleStatEvent\<lparr>errno := Some (PStr ''success'')\<rparr>" ansi fm isTTY
        "Some False"]
    by (simp add: formatEvent_sampleStat colour)
      (simp add: sampleStatEvent_def sampleReadEvent_def isRealError_def objectPrototypeKeys_def
        resultPart_def formatResult_def ansi_def num_eval)
qed

text \<open>
  C7 as stated fails on its fourth phrase: the label \<^verbatim>\<open>operation not supported\<close>,
  written in lower case as the claim writes it, is not on the code's list, which has
  \<^verbatim>\<open>Operation not supported\<close>; the event is classified a real error and its line is
  in the error style, with \<^verbatim>\<open>-1\<close> and the label.
\<close>

theorem lowercase_phrase_is_real_error:
  "\<forall>fm isTTY.
     isRealError (sampleStatEvent\<lparr>errno := Some (PStr ''operation not supported'')\<rparr>) = Inr True \<and>
     isRealError (sampleStatEvent\<lparr>errno := Some (PStr ''Operation not supported'')\<rparr>) = Inr False \<and>
     formatEvent fm isTTY (sampleStatEvent\<lparr>errno := Some (PStr ''operation not supported'')\<rparr>)
       (Some False) =
       Inr ''01.300           cat/1234         stat64(0x16b473548, 0x16b473000) = -1 operation not supported''"
  by (simp add: sampleStatEvent_def format_eval num_eval sets_eval)

text \<open>
  A label that is not a string reaches the formatter only from a document whose
  \<^verbatim>\<open>errno\<close> text the parser converted: a true number or boolean has no
  \<^verbatim>\<open>includes\<close>, and the line is not produced.
\<close>

lemma formatEvent_numeric_label:
  "isRealError (sampleStatEvent\<lparr>errno := Some (PNum ''2'')\<rparr>) = Inl TypeError \<and>
   formatEvent fm isTTY (sampleStatEvent\<lparr>errno := Some (PNum ''2'')\<rparr>) color = Inl TypeError \<and>
   isRealError (sampleStatEvent\<lparr>errno := Some (PNum ''0'')\<rparr>) = Inr False"
  by (simp add: sampleStatEvent_def isRealError_def formatEvent_def decode_def decoders_def
      objectPrototypeKeys_def Let_def)

end
